theory Spec2Isabelle
  imports Main "HOL-Library.Multiset"
begin

section \<open>Values shared by the whole program\<close>

subsection \<open>User-visible notices and exceptions\<close>

text \<open>
  The dashboard reports to the user through \<^verbatim>\<open>st.warning\<close>, \<^verbatim>\<open>st.error\<close> and
  \<^verbatim>\<open>st.success\<close>. A function of the model returns the notices it shows, in order, next
  to its result. The pictograms that open the messages of the source are left out of the
  message texts.

  An exception is a value: \<open>Exception m\<close> stands for an instance of a subclass of
  Python's \<^verbatim>\<open>Exception\<close> whose \<^verbatim>\<open>str\<close> is \<open>m\<close>. These are what the handlers of the
  source (\<^verbatim>\<open>except Exception\<close> and the bare \<^verbatim>\<open>except\<close>) catch.
\<close>

datatype notice = StWarning string | StError string | StSuccess string

datatype exn = Exception string

fun str_exn :: "exn \<Rightarrow> string" where
  "str_exn (Exception m) = m"

subsection \<open>Strings\<close>

text \<open>
  Strings of the model are ASCII texts. \<^verbatim>\<open>str.upper\<close> and \<^verbatim>\<open>str.lower\<close> change the
  26 letters and nothing else; \<^verbatim>\<open>str(i)\<close> of a natural number is its decimal numeral.
\<close>

definition ascii_uppercase :: string where
  "ascii_uppercase = ''ABCDEFGHIJKLMNOPQRSTUVWXYZ''"

definition ascii_lowercase :: string where
  "ascii_lowercase = ''abcdefghijklmnopqrstuvwxyz''"

definition digits :: string where
  "digits = ''0123456789''"

definition lower_char :: "char \<Rightarrow> char" where
  "lower_char c = (case map_of (zip ascii_uppercase ascii_lowercase) c of Some l \<Rightarrow> l | None \<Rightarrow> c)"

definition upper_char :: "char \<Rightarrow> char" where
  "upper_char c = (case map_of (zip ascii_lowercase ascii_uppercase) c of Some u \<Rightarrow> u | None \<Rightarrow> c)"

definition lower :: "string \<Rightarrow> string" where
  "lower s = map lower_char s"

definition upper :: "string \<Rightarrow> string" where
  "upper s = map upper_char s"

function str_of_nat :: "nat \<Rightarrow> string" where
  "str_of_nat n =
     (if n < 10 then [digits ! n] else str_of_nat (n div 10) @ [digits ! (n mod 10)])"
  by pat_completeness auto
termination
  by (relation "measure id") auto

declare str_of_nat.simps [simp del]

text \<open>\<^verbatim>\<open>sep.join(xs)\<close>.\<close>

fun join :: "string \<Rightarrow> string list \<Rightarrow> string" where
  "join sep [] = []"
| "join sep [x] = x"
| "join sep (x # y # ys) = x @ sep @ join sep (y # ys)"

text \<open>\<^verbatim>\<open>s.replace("Z", "+00:00")\<close>.\<close>

definition replace_Z :: "string \<Rightarrow> string" where
  "replace_Z s = concat (map (\<lambda>c. if c = CHR ''Z'' then ''+00:00'' else [c]) s)"

definition newline :: string where
  "newline = [CHR 0x0A]"

definition dquote :: string where
  "dquote = [CHR 0x22]"

text \<open>
  \<^verbatim>\<open>xs[:n]\<close>: a negative \<open>n\<close> counts from the end of the list.
\<close>

definition py_take :: "int \<Rightarrow> 'a list \<Rightarrow> 'a list" where
  "py_take n xs = (if 0 \<le> n then take (nat n) xs else take (nat (int (length xs) + n)) xs)"

subsection \<open>JSON values and Python truthiness\<close>

datatype json =
    JNull
  | JBool bool
  | JNum int
  | JStr string
  | JArr "json list"
  | JObj "(string \<times> json) list"

fun truthy :: "json \<Rightarrow> bool" where
  "truthy JNull = False"
| "truthy (JBool b) = b"
| "truthy (JNum n) = (n \<noteq> 0)"
| "truthy (JStr s) = (s \<noteq> [])"
| "truthy (JArr xs) = (xs \<noteq> [])"
| "truthy (JObj kvs) = (kvs \<noteq> [])"

text \<open>\<^verbatim>\<open>d.get(key, default)\<close> on an optional field: \<open>None\<close> is a key that is absent.\<close>

definition get_or :: "'a option \<Rightarrow> 'a \<Rightarrow> 'a" where
  "get_or field dflt = (case field of None \<Rightarrow> dflt | Some v \<Rightarrow> v)"

section \<open>SecretsManager\<close>

text \<open>
  \<^verbatim>\<open>self.api_keys\<close> is a dictionary from key names to strings. \<open>dict_get\<close> is
  \<^verbatim>\<open>d.get(key, default)\<close>; \<open>has_value\<close> is the truth value of \<^verbatim>\<open>d.get(key)\<close>, false
  for an absent key and for an empty string.
\<close>

type_synonym dict = "string \<rightharpoonup> string"

definition dict_get :: "dict \<Rightarrow> string \<Rightarrow> string \<Rightarrow> string" where
  "dict_get d key dflt = (case d key of None \<Rightarrow> dflt | Some v \<Rightarrow> v)"

definition has_value :: "dict \<Rightarrow> string \<Rightarrow> bool" where
  "has_value d key = (case d key of None \<Rightarrow> False | Some v \<Rightarrow> v \<noteq> [])"

text \<open>
  The document of \<^verbatim>\<open>config.yaml\<close>: the section \<^verbatim>\<open>api_keys\<close> (a dictionary, in the
  order of its entries) and the section \<^verbatim>\<open>app_settings\<close>; \<open>None\<close> is a section the
  document does not have.
\<close>

record app_settings =
  debug_mode :: bool
  cache_enabled :: bool
  max_posts_per_request :: int

record config_data =
  cfg_api_keys :: "(string \<times> string) list option"
  cfg_app_settings :: "app_settings option"

text \<open>
  What \<^verbatim>\<open>load_secrets\<close> reads. \<open>st_secrets\<close> is the hosted store \<^verbatim>\<open>st.secrets\<close>,
  \<open>None\<close> when reading it raises (no secrets are deployed); \<open>environ\<close> is the process
  environment; \<open>secrets_file\<close> is the parsed \<^verbatim>\<open>.streamlit/secrets.toml\<close>, \<open>None\<close> when
  the file does not exist or loading it raises; \<open>config_file\<close> is the parsed
  \<^verbatim>\<open>config.yaml\<close>, \<open>None\<close> when the file does not exist or loading it raises.
\<close>

record sources =
  st_secrets :: "dict option"
  environ :: dict
  secrets_file :: "dict option"
  config_file :: "config_data option"

text \<open>Priority 1: \<^verbatim>\<open>self.api_keys.update({...})\<close> inside \<^verbatim>\<open>try\<close>.\<close>

definition load_streamlit_secrets :: "dict option \<Rightarrow> dict \<Rightarrow> dict" where
  "load_streamlit_secrets store api_keys =
     (case store of
        None \<Rightarrow> api_keys
      | Some s \<Rightarrow> api_keys
          (''apify_token'' \<mapsto> dict_get s ''APIFY_TOKEN'' '''',
           ''gemini_api_key'' \<mapsto> dict_get s ''GEMINI_API_KEY'' '''',
           ''instagram_session_id'' \<mapsto> dict_get s ''INSTAGRAM_SESSION_ID'' '''',
           ''proxy_url'' \<mapsto> dict_get s ''PROXY_URL'' '''',
           ''openai_api_key'' \<mapsto> dict_get s ''OPENAI_API_KEY'' ''''))"

text \<open>Priority 2: the dictionary \<^verbatim>\<open>env_keys\<close> and the loop over its items.\<close>

definition env_keys :: "dict \<Rightarrow> (string \<times> string) list" where
  "env_keys env =
     [(''apify_token'', dict_get env ''APIFY_TOKEN'' ''''),
      (''gemini_api_key'', dict_get env ''GEMINI_API_KEY'' ''''),
      (''instagram_session_id'', dict_get env ''INSTAGRAM_SESSION_ID'' ''''),
      (''proxy_url'', dict_get env ''PROXY_URL'' ''''),
      (''openai_api_key'', dict_get env ''OPENAI_API_KEY'' '''')]"

text \<open>
  \<^verbatim>\<open>for key, value in items: if value and not self.api_keys.get(key):
  self.api_keys[key] = value\<close>, the loop of priority 2 and of priority 4.
\<close>

fun fill_items :: "(string \<times> string) list \<Rightarrow> dict \<Rightarrow> dict" where
  "fill_items [] api_keys = api_keys"
| "fill_items ((key, v) # rest) api_keys =
     fill_items rest
       (if v \<noteq> [] \<and> \<not> has_value api_keys key then api_keys(key \<mapsto> v) else api_keys)"

text \<open>
  Priority 3: \<^verbatim>\<open>for key in [...]: if key in secrets_data and not
  self.api_keys.get(key.lower()): self.api_keys[key.lower()] = secrets_data[key]\<close>.
\<close>

definition secret_names :: "string list" where
  "secret_names =
     [''APIFY_TOKEN'', ''GEMINI_API_KEY'', ''INSTAGRAM_SESSION_ID'', ''PROXY_URL'',
      ''OPENAI_API_KEY'']"

fun fill_names :: "string list \<Rightarrow> dict \<Rightarrow> dict \<Rightarrow> dict" where
  "fill_names [] secrets_data api_keys = api_keys"
| "fill_names (key # rest) secrets_data api_keys =
     fill_names rest secrets_data
       (case secrets_data key of
          Some v \<Rightarrow> if \<not> has_value api_keys (lower key) then api_keys(lower key \<mapsto> v)
                    else api_keys
        | None \<Rightarrow> api_keys)"

definition load_secrets_file :: "dict option \<Rightarrow> dict \<Rightarrow> dict" where
  "load_secrets_file file api_keys =
     (case file of None \<Rightarrow> api_keys
      | Some secrets_data \<Rightarrow> fill_names secret_names secrets_data api_keys)"

text \<open>
  Priority 4: \<^verbatim>\<open>api_section = config_data.get('api_keys', {})\<close> and the loop over its
  items.
\<close>

definition load_config_file :: "config_data option \<Rightarrow> dict \<Rightarrow> dict" where
  "load_config_file file api_keys =
     (case file of None \<Rightarrow> api_keys
      | Some doc \<Rightarrow> fill_items (get_or (cfg_api_keys doc) []) api_keys)"

text \<open>
  \<^verbatim>\<open>load_secrets\<close> changes \<^verbatim>\<open>self.api_keys\<close>, whatever it holds when the method is
  called. \<^verbatim>\<open>__init__\<close> calls it on the empty dictionary; the setup wizard calls it again
  on the dictionary of the running manager ("Reload secrets").
\<close>

definition load_secrets :: "sources \<Rightarrow> dict \<Rightarrow> dict" where
  "load_secrets src api_keys =
     load_config_file (config_file src)
       (load_secrets_file (secrets_file src)
          (fill_items (env_keys (environ src))
             (load_streamlit_secrets (st_secrets src) api_keys)))"

definition SecretsManager_init :: "sources \<Rightarrow> dict" where
  "SecretsManager_init src = load_secrets src Map.empty"

definition get_secret :: "dict \<Rightarrow> string \<Rightarrow> string" where
  "get_secret api_keys key = dict_get api_keys (lower key) ''''"

definition required_keys :: "string list" where
  "required_keys = [''apify_token'', ''gemini_api_key'']"

definition has_required_keys :: "dict \<Rightarrow> bool" where
  "has_required_keys api_keys = list_all (\<lambda>key. get_secret api_keys key \<noteq> []) required_keys"

definition get_missing_keys :: "dict \<Rightarrow> string list" where
  "get_missing_keys api_keys = filter (\<lambda>key. get_secret api_keys key = []) required_keys"

subsection \<open>Saving the keys\<close>

text \<open>
  The files the manager writes live in the working directory, which exists:
  \<^verbatim>\<open>.env\<close>, \<^verbatim>\<open>config.yaml\<close>, and \<^verbatim>\<open>secrets.toml\<close> in the directory
  \<^verbatim>\<open>.streamlit\<close>. The file system of the model has the directories and the files of the
  working directory and the number of characters the device can still take.

  \<^item> \<^verbatim>\<open>Path.mkdir(exist_ok=True)\<close> raises \<^verbatim>\<open>FileExistsError\<close> when the path is a
    file, does nothing when it is a directory, and creates it otherwise.
  \<^item> \<^verbatim>\<open>with open(path, 'w') as f: f.write(content)\<close> raises \<^verbatim>\<open>FileNotFoundError\<close>
    when the directory of the path is missing and \<^verbatim>\<open>IsADirectoryError\<close> when the
    path is a directory. Opening truncates the file; when the device cannot take the whole
    content, the part that fits is written and \<^verbatim>\<open>OSError\<close> is raised.

  A function that can raise returns the exception, if any, and the file system it leaves.
\<close>

record fs =
  fs_dirs :: "string list"
  fs_files :: "string \<rightharpoonup> string"
  fs_free :: nat

definition mkdir_exist_ok :: "string \<Rightarrow> fs \<Rightarrow> exn option \<times> fs" where
  "mkdir_exist_ok path f =
     (if fs_files f path \<noteq> None then (Some (Exception ''FileExistsError''), f)
      else if path \<in> set (fs_dirs f) then (None, f)
      else (None, f\<lparr>fs_dirs := fs_dirs f @ [path]\<rparr>))"

text \<open>What a file can grow to: the free space and the space the file takes now.\<close>

definition room :: "fs \<Rightarrow> string \<Rightarrow> nat" where
  "room f path = fs_free f + length (get_or (fs_files f path) [])"

definition write_file :: "string option \<Rightarrow> string \<Rightarrow> string \<Rightarrow> fs \<Rightarrow> exn option \<times> fs" where
  "write_file parent path content f =
     (if (case parent of None \<Rightarrow> False | Some d \<Rightarrow> d \<notin> set (fs_dirs f))
      then (Some (Exception ''FileNotFoundError''), f)
      else if path \<in> set (fs_dirs f) then (Some (Exception ''IsADirectoryError''), f)
      else if length content \<le> room f path
      then (None, f\<lparr>fs_files := (fs_files f)(path \<mapsto> content),
                    fs_free := room f path - length content\<rparr>)
      else (Some (Exception ''OSError''),
            f\<lparr>fs_files := (fs_files f)(path \<mapsto> take (room f path) content),
              fs_free := 0\<rparr>))"

text \<open>The two line formats: only the entries with a non-empty value are written.\<close>

fun toml_content :: "(string \<times> string) list \<Rightarrow> string" where
  "toml_content [] = []"
| "toml_content ((key, v) # rest) =
     (if v \<noteq> [] then upper key @ '' = '' @ dquote @ v @ dquote @ newline else [])
     @ toml_content rest"

fun env_content :: "(string \<times> string) list \<Rightarrow> string" where
  "env_content [] = []"
| "env_content ((key, v) # rest) =
     (if v \<noteq> [] then upper key @ ''='' @ v @ newline else []) @ env_content rest"

text \<open>The block \<^verbatim>\<open>app_settings\<close> that the method puts into \<^verbatim>\<open>config_data\<close>.\<close>

definition default_app_settings :: app_settings where
  "default_app_settings =
     \<lparr>debug_mode = False, cache_enabled = True, max_posts_per_request = 100\<rparr>"

text \<open>
  \<^verbatim>\<open>yaml.dump\<close> is the library's serialiser, a parameter of the model. The method has
  no \<^verbatim>\<open>try\<close>: what \<^verbatim>\<open>mkdir\<close>, \<^verbatim>\<open>open\<close> or \<^verbatim>\<open>write\<close> raise leaves the method.
  A \<^verbatim>\<open>file_type\<close> other than the three does nothing.
\<close>

definition save_secrets_to_file ::
  "(config_data \<Rightarrow> string) \<Rightarrow> (string \<times> string) list \<Rightarrow> string \<Rightarrow> fs \<Rightarrow> exn option \<times> fs" where
  "save_secrets_to_file yaml_dump secrets_dict file_type f =
     (if file_type = ''toml'' then
        (case mkdir_exist_ok ''.streamlit'' f of
           (Some e, f1) \<Rightarrow> (Some e, f1)
         | (None, f1) \<Rightarrow>
             write_file (Some ''.streamlit'') ''.streamlit/secrets.toml''
               (toml_content secrets_dict) f1)
      else if file_type = ''env'' then
        write_file None ''.env'' (env_content secrets_dict) f
      else if file_type = ''yaml'' then
        write_file None ''config.yaml''
          (yaml_dump \<lparr>cfg_api_keys = Some secrets_dict,
                      cfg_app_settings = Some default_app_settings\<rparr>) f
      else (None, f))"

section \<open>InstagramAnalytics\<close>

subsection \<open>Post records and the clock\<close>

text \<open>
  A post is the dictionary that both retrieval paths build; the fields carry the keys of
  the source (\<open>post_id\<close> is the key \<^verbatim>\<open>id\<close>). The value under \<^verbatim>\<open>timestamp\<close> is a
  \<^verbatim>\<open>datetime\<close>: \<open>timestamp\<close> is its point in time, counted in microseconds, and
  \<open>timestamp_aware\<close> tells whether it carries a time zone (an aware \<^verbatim>\<open>datetime\<close>) or
  not (a naive one). \<^verbatim>\<open>datetime.now()\<close> is naive; \<^verbatim>\<open>datetime.fromisoformat\<close> gives
  an aware value for a text with an offset and a naive one otherwise. Python raises
  \<^verbatim>\<open>TypeError\<close> when a naive and an aware value are ordered.
  \<^verbatim>\<open>timedelta(days=d)\<close> is \<open>d * day\<close>.

  Every call of \<^verbatim>\<open>datetime.now()\<close> reads the wall clock again. A clock is the sequence
  of the readings still to come: \<open>now\<close> is the next reading and \<open>tick\<close> the clock after
  it. Nothing is assumed about how the readings follow each other.
\<close>

record post =
  post_id :: string
  creator :: string
  thumbnail :: string
  likes :: int
  comments :: int
  shares :: int
  views :: int
  caption :: string
  post_type :: string
  url :: string
  timestamp :: int
  timestamp_aware :: bool
  hashtags :: "string list"

type_synonym clock = "nat \<Rightarrow> int"

definition now :: "clock \<Rightarrow> int" where
  "now c = c 0"

definition tick :: "clock \<Rightarrow> clock" where
  "tick c = (\<lambda>n. c (Suc n))"

definition day :: int where
  "day = 86400000000"

subsection \<open>Demo data\<close>

text \<open>
  The two retrieval paths each carry their own copy of the dictionary \<^verbatim>\<open>time_filters\<close>
  and look the window up with \<^verbatim>\<open>time_filters.get(time_filter, 30)\<close>.
\<close>

definition time_filters_demo :: "(string \<times> int) list" where
  "time_filters_demo =
     [(''Today'', 1), (''48 Hours'', 2), (''4 Days'', 4), (''Week'', 7), (''Month'', 30)]"

definition days_back_demo :: "string \<Rightarrow> int" where
  "days_back_demo time_filter = get_or (map_of time_filters_demo time_filter) 30"

text \<open>
  One element of the comprehension \<^verbatim>\<open>mock_posts\<close>: \<open>i\<close> is the index and \<open>t\<close> the
  reading of the clock taken for it. \<open>tags\<close> and \<open>ptype\<close> are the parameters
  \<^verbatim>\<open>hashtags\<close> and \<^verbatim>\<open>post_type\<close> of the source.
\<close>

definition mock_post :: "string list \<Rightarrow> string \<Rightarrow> int \<Rightarrow> nat \<Rightarrow> post" where
  "mock_post tags ptype t i =
     \<lparr>post_id = ''post_'' @ str_of_nat i,
      creator = ''designer_'' @ str_of_nat (i mod 10),
      thumbnail = ''https://picsum.photos/300/200?random='' @ str_of_nat i,
      likes = 1500 + int i * 100,
      comments = 45 + int i * 5,
      shares = 20 + int i * 2,
      views = 5000 + int i * 200,
      caption = ''Amazing '' @ (case tags of [] \<Rightarrow> ''design'' | h # _ \<Rightarrow> h)
        @ '' inspiration! Check out this innovative approach to modern design solutions.'',
      post_type = (if ptype \<noteq> ''all'' then ptype
                   else [''posts'', ''carousels'', ''reels''] ! (i mod 3)),
      url = ''https://instagram.com/p/mock_'' @ str_of_nat i,
      timestamp = t - int (i mod 30) * day,
      timestamp_aware = False,
      hashtags = (if tags \<noteq> [] then take 3 tags else [''#design''])\<rparr>"

text \<open>\<^verbatim>\<open>range(limit)\<close> is empty when \<open>limit\<close> is not positive.\<close>

definition mock_posts :: "clock \<Rightarrow> string list \<Rightarrow> string \<Rightarrow> int \<Rightarrow> post list" where
  "mock_posts c tags ptype limit = map (\<lambda>i. mock_post tags ptype (c i) i) [0..<nat limit]"

text \<open>
  \<^verbatim>\<open>_get_demo_data\<close>: the records are built first, one reading of the clock each; the
  cutoff is computed from the reading after them.
\<close>

definition get_demo_data :: "clock \<Rightarrow> string list \<Rightarrow> string \<Rightarrow> string \<Rightarrow> int \<Rightarrow> post list" where
  "get_demo_data c tags time_filter ptype limit =
     (let days_back = days_back_demo time_filter;
          cutoff_date = c (nat limit) - days_back * day
      in filter (\<lambda>p. timestamp p \<ge> cutoff_date) (mock_posts c tags ptype limit))"

subsection \<open>Raw items of the scraping provider\<close>

text \<open>
  A raw item is a dictionary; \<open>None\<close> is a key the item does not have. The two fields
  that \<^verbatim>\<open>_determine_post_type\<close> tests are any JSON value, the others have the type the
  program uses them at (\<open>item_id\<close>, \<open>item_caption\<close> and \<open>item_timestamp\<close> are the keys
  \<^verbatim>\<open>id\<close>, \<^verbatim>\<open>caption\<close> and \<^verbatim>\<open>timestamp\<close>).
\<close>

record raw_item =
  item_id :: "string option"
  ownerUsername :: "string option"
  displayUrl :: "string option"
  likesCount :: "int option"
  commentsCount :: "int option"
  videoViewCount :: "int option"
  item_caption :: "string option"
  videoUrl :: "json option"
  sidecarMedias :: "json option"
  shortCode :: "string option"
  item_timestamp :: "string option"

text \<open>\<^verbatim>\<open>item.get(key)\<close> as a condition: false for an absent key and for a falsy value.\<close>

definition get_truthy :: "json option \<Rightarrow> bool" where
  "get_truthy field = (case field of None \<Rightarrow> False | Some v \<Rightarrow> truthy v)"

definition determine_post_type :: "raw_item \<Rightarrow> string" where
  "determine_post_type item =
     (if get_truthy (videoUrl item) then ''reels''
      else if get_truthy (sidecarMedias item) then ''carousels''
      else ''posts'')"

text \<open>
  \<^verbatim>\<open>re.findall(r'#\w+', caption)\<close> scans from the left; at a \<^verbatim>\<open>#\<close> followed by a word
  character it takes the longest run of word characters and goes on behind it. The scan
  is written for any alphabet, with the word class \<open>w\<close> and the sign \<open>h\<close> as parameters.
\<close>

function findall_hashtags :: "('c \<Rightarrow> bool) \<Rightarrow> 'c \<Rightarrow> 'c list \<Rightarrow> 'c list list" where
  "findall_hashtags w h [] = []"
| "findall_hashtags w h (c # cs) =
     (if c = h \<and> takeWhile w cs \<noteq> []
      then (c # takeWhile w cs) # findall_hashtags w h (dropWhile w cs)
      else findall_hashtags w h cs)"
  by pat_completeness auto
termination
  by (relation "measure (\<lambda>(w, h, s). length s)") (auto simp: length_dropWhile_le less_Suc_eq_le)

text \<open>
  The word class \<^verbatim>\<open>\w\<close> of a \<^verbatim>\<open>str\<close> pattern is the Unicode one: the underscore and
  every character that \<^verbatim>\<open>str.isalnum\<close> accepts. A character of the model is a code point
  below 256; of these the class holds the ASCII letters and digits, the underscore, and
  from the Latin-1 range the letters (all of \<open>0xC0\<close> to \<open>0xFF\<close> but the two signs
  \<open>0xD7\<close> and \<open>0xF7\<close>; \<open>0xAA\<close>, \<open>0xB5\<close>, \<open>0xBA\<close>) and the numeric characters
  (\<open>0xB2\<close>, \<open>0xB3\<close>, \<open>0xB9\<close>, \<open>0xBC\<close> to \<open>0xBE\<close>).
\<close>

definition latin1_alnum :: string where
  "latin1_alnum =
     [CHR 0xAA, CHR 0xB2, CHR 0xB3, CHR 0xB5, CHR 0xB9, CHR 0xBA, CHR 0xBC, CHR 0xBD, CHR 0xBE,
      CHR 0xC0, CHR 0xC1, CHR 0xC2, CHR 0xC3, CHR 0xC4, CHR 0xC5, CHR 0xC6, CHR 0xC7, CHR 0xC8,
      CHR 0xC9, CHR 0xCA, CHR 0xCB, CHR 0xCC, CHR 0xCD, CHR 0xCE, CHR 0xCF, CHR 0xD0, CHR 0xD1,
      CHR 0xD2, CHR 0xD3, CHR 0xD4, CHR 0xD5, CHR 0xD6, CHR 0xD8, CHR 0xD9, CHR 0xDA, CHR 0xDB,
      CHR 0xDC, CHR 0xDD, CHR 0xDE, CHR 0xDF, CHR 0xE0, CHR 0xE1, CHR 0xE2, CHR 0xE3, CHR 0xE4,
      CHR 0xE5, CHR 0xE6, CHR 0xE7, CHR 0xE8, CHR 0xE9, CHR 0xEA, CHR 0xEB, CHR 0xEC, CHR 0xED,
      CHR 0xEE, CHR 0xEF, CHR 0xF0, CHR 0xF1, CHR 0xF2, CHR 0xF3, CHR 0xF4, CHR 0xF5, CHR 0xF6,
      CHR 0xF8, CHR 0xF9, CHR 0xFA, CHR 0xFB, CHR 0xFC, CHR 0xFD, CHR 0xFE, CHR 0xFF]"

definition is_word_char :: "char \<Rightarrow> bool" where
  "is_word_char c =
     (c \<in> set (ascii_lowercase @ ascii_uppercase @ digits @ ''_'' @ latin1_alnum))"

definition extract_hashtags :: "string \<Rightarrow> string list" where
  "extract_hashtags cap = take 5 (findall_hashtags is_word_char (CHR ''#'') cap)"

subsection \<open>Scraping\<close>

definition time_filters_live :: "(string \<times> int) list" where
  "time_filters_live =
     [(''Today'', 1), (''48 Hours'', 2), (''4 Days'', 4), (''Week'', 7), (''Month'', 30)]"

definition days_back_live :: "string \<Rightarrow> int" where
  "days_back_live time_filter = get_or (map_of time_filters_live time_filter) 30"

text \<open>
  The input of the actor run. \<open>dateFrom\<close> is the cutoff itself (the source sends its ISO
  text); \<open>proxy\<close> is the list \<^verbatim>\<open>proxyUrls\<close> when a proxy is configured.
\<close>

record actor_input =
  ai_hashtags :: "string list"
  resultsLimit :: int
  searchType :: string
  addParentData :: bool
  dateFrom :: int
  proxy :: "string list option"

text \<open>
  The provider is a parameter: what the run of the actor and the iteration over its
  dataset deliver for an input, in order. An element \<open>Inl e\<close> is the point where the call
  or the iteration raises \<open>e\<close>. \<^verbatim>\<open>datetime.fromisoformat\<close> is a parameter too; it raises
  on a text it cannot read, and gives the point in time and whether the value is aware
  otherwise.
\<close>

type_synonym provider = "actor_input \<Rightarrow> (exn + raw_item) list"

definition build_post :: "(string \<Rightarrow> exn + int \<times> bool) \<Rightarrow> clock \<Rightarrow> raw_item \<Rightarrow> clock \<times> (exn + post)" where
  "build_post fromisoformat c item =
     (case (if get_or (item_timestamp item) [] \<noteq> []
            then (c, fromisoformat (replace_Z (get_or (item_timestamp item) [])))
            else (tick c, Inr (now c, False))) of
        (c1, Inl e) \<Rightarrow> (c1, Inl e)
      | (c1, Inr (t, aware)) \<Rightarrow>
          (c1, Inr \<lparr>post_id = get_or (item_id item) [],
                    creator = get_or (ownerUsername item) ''unknown'',
                    thumbnail = get_or (displayUrl item) [],
                    likes = get_or (likesCount item) 0,
                    comments = get_or (commentsCount item) 0,
                    shares = get_or (videoViewCount item) 0,
                    views = get_or (videoViewCount item) (get_or (likesCount item) 0 * 10),
                    caption = get_or (item_caption item) [],
                    post_type = determine_post_type item,
                    url = ''https://instagram.com/p/'' @ get_or (shortCode item) [],
                    timestamp = t,
                    timestamp_aware = aware,
                    hashtags = extract_hashtags (get_or (item_caption item) [])\<rparr>))"

fun build_posts ::
  "(string \<Rightarrow> exn + int \<times> bool) \<Rightarrow> clock \<Rightarrow> (exn + raw_item) list \<Rightarrow> clock \<times> (exn + post list)" where
  "build_posts fromisoformat c [] = (c, Inr [])"
| "build_posts fromisoformat c (Inl e # rest) = (c, Inl e)"
| "build_posts fromisoformat c (Inr item # rest) =
     (case build_post fromisoformat c item of
        (c1, Inl e) \<Rightarrow> (c1, Inl e)
      | (c1, Inr p) \<Rightarrow>
          (case build_posts fromisoformat c1 rest of
             (c2, Inl e) \<Rightarrow> (c2, Inl e)
           | (c2, Inr ps) \<Rightarrow> (c2, Inr (p # ps))))"

text \<open>
  The dictionary \<^verbatim>\<open>actor_input\<close> that the \<^verbatim>\<open>try\<close> of \<^verbatim>\<open>scrape_instagram_posts\<close>
  builds first; it takes one reading of the clock for the cutoff.
\<close>

definition make_actor_input :: "string \<Rightarrow> clock \<Rightarrow> string list \<Rightarrow> string \<Rightarrow> int \<Rightarrow> actor_input" where
  "make_actor_input proxy_url c tags time_filter limit =
     (let days_back = days_back_live time_filter;
          cutoff_date = now c - days_back * day
      in \<lparr>ai_hashtags = tags, resultsLimit = limit, searchType = ''hashtag'',
          addParentData = False, dateFrom = cutoff_date,
          proxy = (if proxy_url \<noteq> [] then Some [proxy_url] else None)\<rparr>)"

text \<open>
  The body of the \<^verbatim>\<open>try\<close>: it returns the clock it leaves and either the exception
  raised in it or the list it returns.
\<close>

definition scrape_try ::
  "string \<Rightarrow> provider \<Rightarrow> (string \<Rightarrow> exn + int \<times> bool) \<Rightarrow> clock \<Rightarrow> string list \<Rightarrow> string \<Rightarrow> string \<Rightarrow> int
   \<Rightarrow> clock \<times> (exn + post list)" where
  "scrape_try proxy_url apify fromisoformat c tags time_filter ptype limit =
     (let actor_in = make_actor_input proxy_url c tags time_filter limit
      in case build_posts fromisoformat (tick c) (apify actor_in) of
           (c1, Inl e) \<Rightarrow> (c1, Inl e)
         | (c1, Inr posts_data) \<Rightarrow>
             (c1, Inr (py_take limit
                (if ptype \<noteq> ''all''
                 then filter (\<lambda>p. lower (post_type p) = ptype) posts_data
                 else posts_data))))"

text \<open>
  \<^verbatim>\<open>scrape_instagram_posts\<close>. \<open>scraping_available\<close> is the flag that \<^verbatim>\<open>__init__\<close>
  sets: true when an Apify token is resolved and the client could be built.
\<close>

definition scrape_instagram_posts ::
  "bool \<Rightarrow> string \<Rightarrow> provider \<Rightarrow> (string \<Rightarrow> exn + int \<times> bool) \<Rightarrow> clock \<Rightarrow> string list \<Rightarrow> string \<Rightarrow> string
   \<Rightarrow> int \<Rightarrow> notice list \<times> post list" where
  "scrape_instagram_posts scraping_available proxy_url apify fromisoformat c tags
       time_filter ptype limit =
     (if \<not> scraping_available
      then ([StWarning ''Apify not configured. Using demo data.''],
            get_demo_data c tags time_filter ptype limit)
      else case scrape_try proxy_url apify fromisoformat c tags time_filter ptype limit of
             (c1, Inr posts) \<Rightarrow> ([], posts)
           | (c1, Inl e) \<Rightarrow>
               ([StError (''Scraping failed: '' @ str_exn e)],
                get_demo_data c1 tags time_filter ptype limit))"

text \<open>
  \<^verbatim>\<open>__init__\<close>: the provider is configured when \<^verbatim>\<open>apify_token\<close> is resolved and
  building the client does not raise (\<open>client_error\<close> is what it raises, if anything).
\<close>

definition scraping_available_init :: "dict \<Rightarrow> exn option \<Rightarrow> notice list \<times> bool" where
  "scraping_available_init api_keys client_error =
     (if get_secret api_keys ''apify_token'' \<noteq> []
      then (case client_error of
              None \<Rightarrow> ([], True)
            | Some e \<Rightarrow> ([StWarning (''Apify setup failed: '' @ str_exn e)], False))
      else ([], False))"

subsection \<open>Content analysis\<close>

text \<open>
  The prompt of \<^verbatim>\<open>analyze_with_gemini\<close>, an f-string over the caption and the joined
  hashtags (\<open>cap\<close> and \<open>tags\<close> are the parameters \<^verbatim>\<open>caption\<close> and \<^verbatim>\<open>hashtags\<close>).
\<close>

definition indent :: string where
  "indent = replicate 12 (CHR '' '')"

definition analysis_prompt :: "string \<Rightarrow> string list \<Rightarrow> string" where
  "analysis_prompt cap tags =
     newline
     @ indent @ ''Analyze this Instagram post:'' @ newline
     @ indent @ ''Caption: '' @ cap @ newline
     @ indent @ ''Hashtags: '' @ join '', '' tags @ newline
     @ indent @ newline
     @ indent @ ''Provide analysis in JSON format:'' @ newline
     @ indent @ ''{'' @ newline
     @ indent @ ''    '' @ dquote @ ''category'' @ dquote @ '': '' @ dquote
         @ ''Tech/UI-UX/Product Design/AI/Other'' @ dquote @ '','' @ newline
     @ indent @ ''    '' @ dquote @ ''sentiment'' @ dquote @ '': '' @ dquote
         @ ''Positive/Neutral/Negative'' @ dquote @ '','' @ newline
     @ indent @ ''    '' @ dquote @ ''engagement_prediction'' @ dquote @ '': '' @ dquote
         @ ''High/Medium/Low'' @ dquote @ '','' @ newline
     @ indent @ ''    '' @ dquote @ ''content_quality'' @ dquote @ '': <score 0-100>,'' @ newline
     @ indent @ ''    '' @ dquote @ ''trending_potential'' @ dquote @ '': <score 0-100>'' @ newline
     @ indent @ ''}'' @ newline
     @ indent"

text \<open>
  \<^verbatim>\<open>analyze_with_gemini\<close>. The two library calls are parameters:
  \<open>generate_content\<close> gives the text of the response or the exception of the call,
  \<open>json_loads\<close> the parsed value or the exception of the parser. The first component of
  the result counts the calls of \<open>generate_content\<close> that the method makes. The two
  default dictionaries are the two literals of the source, in the order of their entries.
\<close>

definition analyze_with_gemini ::
  "bool \<Rightarrow> (string \<Rightarrow> exn + string) \<Rightarrow> (string \<Rightarrow> exn + json) \<Rightarrow> string \<Rightarrow> string list
   \<Rightarrow> nat \<times> notice list \<times> json" where
  "analyze_with_gemini ai_available generate_content json_loads cap tags =
     (if \<not> ai_available
      then (0, [],
            JObj [(''category'', JStr ''General''),
                  (''sentiment'', JStr ''Positive''),
                  (''engagement_prediction'', JStr ''Medium''),
                  (''content_quality'', JNum 75),
                  (''trending_potential'', JNum 60)])
      else case (case generate_content (analysis_prompt cap tags) of
                   Inl e \<Rightarrow> Inl e
                 | Inr response_text \<Rightarrow> json_loads response_text) of
             Inr analysis \<Rightarrow> (1, [], analysis)
           | Inl e \<Rightarrow>
               (1, [StWarning (''AI analysis failed: '' @ str_exn e)],
                JObj [(''category'', JStr ''General''),
                      (''sentiment'', JStr ''Positive''),
                      (''engagement_prediction'', JStr ''Medium''),
                      (''content_quality'', JNum 75),
                      (''trending_potential'', JNum 60)]))"

subsection \<open>Bookmarks\<close>

text \<open>
  \<^verbatim>\<open>st.session_state.bookmarks\<close> is a Python list, created empty and changed only by
  \<^verbatim>\<open>bookmark_post\<close>: \<^verbatim>\<open>append\<close> when the identifier is not in the list,
  \<^verbatim>\<open>remove\<close> (which deletes the first occurrence) when it is.
\<close>

definition bookmark_post :: "string \<Rightarrow> string list \<Rightarrow> string list \<times> notice" where
  "bookmark_post pid bookmarks =
     (if pid \<notin> set bookmarks
      then (bookmarks @ [pid], StSuccess ''Post bookmarked!'')
      else (remove1 pid bookmarks, StSuccess ''Bookmark removed!''))"

text \<open>The lists that a session can hold: the empty one and what toggles make of it.\<close>

inductive session_bookmarks :: "string list \<Rightarrow> bool" where
  initial: "session_bookmarks []"
| toggled: "session_bookmarks bs \<Longrightarrow> session_bookmarks (fst (bookmark_post p bs))"

section \<open>Sorting the loaded posts\<close>

text \<open>
  \<^verbatim>\<open>list.sort(key=k, reverse=True)\<close> is the sort of the language: it orders the list by
  descending key and keeps elements with equal keys in the order they had. Here it is an
  insertion sort that puts an element in front of the first element whose key is not
  greater than its own. With \<^verbatim>\<open>datetime\<close> keys the sort raises \<^verbatim>\<open>TypeError\<close> when it
  compares a naive with an aware value, which it does as soon as the list holds both.
\<close>

fun insert_reverse :: "('a \<Rightarrow> int) \<Rightarrow> 'a \<Rightarrow> 'a list \<Rightarrow> 'a list" where
  "insert_reverse k x [] = [x]"
| "insert_reverse k x (y # ys) =
     (if k y \<le> k x then x # y # ys else y # insert_reverse k x ys)"

fun sort_reverse :: "('a \<Rightarrow> int) \<Rightarrow> 'a list \<Rightarrow> 'a list" where
  "sort_reverse k [] = []"
| "sort_reverse k (x # xs) = insert_reverse k x (sort_reverse k xs)"

definition comparable_timestamps :: "post list \<Rightarrow> bool" where
  "comparable_timestamps posts =
     (list_all timestamp_aware posts \<or> list_all (\<lambda>p. \<not> timestamp_aware p) posts)"

text \<open>
  The chain of \<^verbatim>\<open>if\<close>/\<^verbatim>\<open>elif\<close> in \<^verbatim>\<open>main\<close> over the selected \<^verbatim>\<open>sort_by\<close>; any
  other value leaves the list as it is. Nothing in \<^verbatim>\<open>main\<close> catches what the sort
  raises.
\<close>

definition sort_posts :: "string \<Rightarrow> post list \<Rightarrow> exn + post list" where
  "sort_posts sort_by posts =
     (if sort_by = ''Likes'' then Inr (sort_reverse likes posts)
      else if sort_by = ''Comments'' then Inr (sort_reverse comments posts)
      else if sort_by = ''Shares'' then Inr (sort_reverse shares posts)
      else if sort_by = ''Views'' then Inr (sort_reverse views posts)
      else if sort_by = ''Recent'' then
        (if comparable_timestamps posts then Inr (sort_reverse timestamp posts)
         else Inl (Exception ''TypeError''))
      else Inr posts)"

text \<open>The sort criteria of the selection box, each with the key it sorts by.\<close>

definition sort_criteria :: "(string \<times> (post \<Rightarrow> int)) list" where
  "sort_criteria =
     [(''Likes'', likes), (''Comments'', comments), (''Shares'', shares), (''Views'', views),
      (''Recent'', timestamp)]"

section \<open>Inputs used by the examples\<close>

text \<open>The default result of the classifier as the specification states it.\<close>

definition default_analysis :: json where
  "default_analysis =
     JObj [(''category'', JStr ''General''), (''sentiment'', JStr ''Positive''),
           (''engagement_prediction'', JStr ''Medium''), (''content_quality'', JNum 75),
           (''trending_potential'', JNum 60)]"

text \<open>An AI provider that refuses every call, and a parser that rejects every text.\<close>

definition quota_exceeded :: "string \<Rightarrow> exn + string" where
  "quota_exceeded prompt = Inl (Exception ''429 quota exceeded'')"

definition no_json :: "string \<Rightarrow> exn + json" where
  "no_json t = Inl (Exception ''Expecting value: line 1 column 1 (char 0)'')"

text \<open>
  Raw items: one without any key, an image post whose \<^verbatim>\<open>videoUrl\<close> is \<^verbatim>\<open>null\<close>, and a
  video post that also has several media.
\<close>

definition empty_item :: raw_item where
  "empty_item =
     \<lparr>item_id = None, ownerUsername = None, displayUrl = None, likesCount = None,
      commentsCount = None, videoViewCount = None, item_caption = None, videoUrl = None,
      sidecarMedias = None, shortCode = None, item_timestamp = None\<rparr>"

definition image_item :: raw_item where
  "image_item =
     empty_item\<lparr>item_id := Some ''3141'', likesCount := Some 12, videoUrl := Some JNull\<rparr>"

definition reel_item :: raw_item where
  "reel_item =
     empty_item\<lparr>videoUrl := Some (JStr ''https://cdn.example/v.mp4''),
                sidecarMedias := Some (JArr [JStr ''a'', JStr ''b''])\<rparr>"

text \<open>Three posts, the first and the last with the same number of likes.\<close>

definition tie_posts :: "post list" where
  "tie_posts =
     [mock_post [] ''all'' 0 0\<lparr>likes := 5\<rparr>, mock_post [] ''all'' 0 1\<lparr>likes := 9\<rparr>,
      mock_post [] ''all'' 0 2\<lparr>likes := 5\<rparr>]"

text \<open>
  The shape of a hashtag token as the specification states it: \<^verbatim>\<open>#\<close> followed by one
  or more word characters.
\<close>

definition is_hashtag :: "string \<Rightarrow> bool" where
  "is_hashtag t =
     (case t of [] \<Rightarrow> False | c # w \<Rightarrow> c = CHR ''#'' \<and> w \<noteq> [] \<and> list_all is_word_char w)"

text \<open>
  The hashtags of a text as the specification states them, without a scan: the positions
  at which the sign \<open>h\<close> stands with a word character behind it, in ascending order, and
  at each of them the sign with the longest run of word characters behind it.
\<close>

definition hashtag_starts :: "('c \<Rightarrow> bool) \<Rightarrow> 'c \<Rightarrow> 'c list \<Rightarrow> nat list" where
  "hashtag_starts w h s =
     filter (\<lambda>i. s ! i = h \<and> Suc i < length s \<and> w (s ! Suc i)) [0..<length s]"

definition hashtags_of :: "('c \<Rightarrow> bool) \<Rightarrow> 'c \<Rightarrow> 'c list \<Rightarrow> 'c list list" where
  "hashtags_of w h s = map (\<lambda>i. h # takeWhile w (drop (Suc i) s)) (hashtag_starts w h s)"

text \<open>A caption with a word that ends in a letter outside ASCII (\<^verbatim>\<open>e\<close> with an acute).\<close>

definition cafe_caption :: string where
  "cafe_caption = ''Open #caf'' @ [CHR 0xE9] @ '' au lait ##a #b#c # #_x #late''"

text \<open>
  Clocks: one that stands still at \<open>t\<close>, and one whose first reading is 0 and whose later
  readings are two days on (the clock was set forward between two readings).
\<close>

definition frozen_clock :: "int \<Rightarrow> clock" where
  "frozen_clock t n = t"

definition jump_clock :: clock where
  "jump_clock n = (if n = 0 then 0 else 2 * day)"

text \<open>
  Providers: one that delivers a single item of the year 2020 whatever \<open>dateFrom\<close> is,
  and one whose run raises. The parser reads every text as the instant 0, with a time
  zone.
\<close>

definition old_item :: raw_item where
  "old_item =
     empty_item\<lparr>item_id := Some ''17'', item_timestamp := Some ''2020-01-01T00:00:00.000Z''\<rparr>"

definition stale_provider :: provider where
  "stale_provider actor_in = [Inr old_item]"

text \<open>
  A provider that delivers two items, the first with a timestamp and the second
  without one.
\<close>

definition undated_item :: raw_item where
  "undated_item = empty_item\<lparr>item_id := Some ''18''\<rparr>"

definition mixed_provider :: provider where
  "mixed_provider actor_in = [Inr old_item, Inr undated_item]"

definition failing_provider :: provider where
  "failing_provider actor_in = [Inl (Exception ''Actor run failed'')]"

definition epoch_parser :: "string \<Rightarrow> exn + int \<times> bool" where
  "epoch_parser text = Inr (0, True)"

fun is_warning :: "notice \<Rightarrow> bool" where
  "is_warning (StWarning m) = True"
| "is_warning n = False"

text \<open>
  A plain block rendering of a configuration document, standing in for \<^verbatim>\<open>yaml.dump\<close>
  in the examples; the keys the wizard collects; and an empty working directory on a
  device with the given free space.
\<close>

definition block_dump :: "config_data \<Rightarrow> string" where
  "block_dump doc =
     (case cfg_api_keys doc of
        None \<Rightarrow> []
      | Some entries \<Rightarrow>
          ''api_keys:'' @ newline
          @ concat (map (\<lambda>(key, v). ''  '' @ key @ '': '' @ v @ newline) entries))
     @ (case cfg_app_settings doc of
          None \<Rightarrow> []
        | Some a \<Rightarrow>
            ''app_settings:'' @ newline
            @ ''  cache_enabled: '' @ (if cache_enabled a then ''true'' else ''false'') @ newline
            @ ''  debug_mode: '' @ (if debug_mode a then ''true'' else ''false'') @ newline
            @ ''  max_posts_per_request: '' @ str_of_nat (nat (max_posts_per_request a))
            @ newline)"

definition wizard_keys :: "(string \<times> string) list" where
  "wizard_keys =
     [(''apify_token'', ''abc123''), (''gemini_api_key'', ''g-42''),
      (''instagram_session_id'', ''''), (''proxy_url'', ''''), (''openai_api_key'', '''')]"

definition empty_disk :: "nat \<Rightarrow> fs" where
  "empty_disk free = \<lparr>fs_dirs = [], fs_files = Map.empty, fs_free = free\<rparr>"

text \<open>
  The resolution rule as the specification states it: for a logical key, the values that
  the four sources yield, in the order of their priority (hosted store, environment,
  secrets file, configuration file; a source that cannot be read or lacks the key yields
  the empty string), and the first of them that is not empty. The hosted store, the
  environment and the secrets file name a key in upper case.
\<close>

definition first_non_empty :: "string list \<Rightarrow> string" where
  "first_non_empty vs = (case filter (\<lambda>v. v \<noteq> []) vs of [] \<Rightarrow> [] | v # _ \<Rightarrow> v)"

definition yielded :: "sources \<Rightarrow> string \<Rightarrow> string list" where
  "yielded src key =
     [case st_secrets src of None \<Rightarrow> [] | Some s \<Rightarrow> dict_get s (upper key) [],
      dict_get (environ src) (upper key) [],
      case secrets_file src of None \<Rightarrow> [] | Some d \<Rightarrow> dict_get d (upper key) [],
      case config_file src of None \<Rightarrow> []
      | Some doc \<Rightarrow> dict_get (map_of (get_or (cfg_api_keys doc) [])) key []]"

definition logical_keys :: "string list" where
  "logical_keys =
     [''apify_token'', ''gemini_api_key'', ''instagram_session_id'', ''proxy_url'',
      ''openai_api_key'']"

text \<open>A dictionary has one entry for a key; so has the section of the configuration file.\<close>

definition config_keys_distinct :: "sources \<Rightarrow> bool" where
  "config_keys_distinct src =
     (case config_file src of None \<Rightarrow> True
      | Some doc \<Rightarrow> distinct (map fst (get_or (cfg_api_keys doc) [])))"

text \<open>
  A machine without hosted secrets, environment variables and secrets file, whose
  configuration file holds a token; and the same machine after the setup wizard has
  saved another token, and a second key, to the configuration file.
\<close>

definition old_config :: sources where
  "old_config =
     \<lparr>st_secrets = None, environ = Map.empty, secrets_file = None,
      config_file = Some \<lparr>cfg_api_keys = Some [(''apify_token'', ''OLD'')],
                           cfg_app_settings = None\<rparr>\<rparr>"

definition new_config :: sources where
  "new_config =
     \<lparr>st_secrets = None, environ = Map.empty, secrets_file = None,
      config_file = Some \<lparr>cfg_api_keys = Some [(''apify_token'', ''NEW''), (''gemini_api_key'', ''G'')],
                           cfg_app_settings = Some default_app_settings\<rparr>\<rparr>"

section \<open>Properties of the bookmarks\<close>

lemma bookmark_post_distinct:
  "distinct bs \<Longrightarrow> distinct (fst (bookmark_post p bs))"
  by (simp add: bookmark_post_def)

lemma session_bookmarks_distinct: "session_bookmarks bs \<Longrightarrow> distinct bs"
  by (induction rule: session_bookmarks.induct) (simp_all add: bookmark_post_distinct)

lemma bookmark_post_absent_twice:
  "p \<notin> set bs \<Longrightarrow> fst (bookmark_post p (fst (bookmark_post p bs))) = bs"
  by (simp add: bookmark_post_def remove1_append)

text \<open>
  Claim C10. In every bookmark list that a session can hold (such a list has no
  duplicates), toggling an identifier adds it when it is absent and removes it when it is
  present, and toggling the same identifier twice gives back the same set of bookmarks,
  of the same size. The set is what the program reads (membership and size); when the
  identifier was present, the second toggle appends it again at the end of the list.
\<close>

theorem bookmark_post_toggle:
  assumes "session_bookmarks bs"
  shows "(p \<notin> set bs \<longrightarrow> set (fst (bookmark_post p bs)) = insert p (set bs))
       \<and> (p \<in> set bs \<longrightarrow> set (fst (bookmark_post p bs)) = set bs - {p})
       \<and> set (fst (bookmark_post p (fst (bookmark_post p bs)))) = set bs
       \<and> length (fst (bookmark_post p (fst (bookmark_post p bs)))) = length bs
       \<and> session_bookmarks (fst (bookmark_post p (fst (bookmark_post p bs))))"
proof -
  have d: "distinct bs" using assms by (rule session_bookmarks_distinct)
  have add: "p \<notin> set bs \<longrightarrow> set (fst (bookmark_post p bs)) = insert p (set bs)"
    by (simp add: bookmark_post_def)
  have del: "p \<in> set bs \<longrightarrow> set (fst (bookmark_post p bs)) = set bs - {p}"
    using d by (simp add: bookmark_post_def)
  have twice: "set (fst (bookmark_post p (fst (bookmark_post p bs)))) = set bs"
    using d by (auto simp: bookmark_post_def)
  have len: "length (fst (bookmark_post p (fst (bookmark_post p bs)))) = length bs"
  proof (cases "p \<in> set bs")
    case True
    then have "length bs > 0" by (cases bs) auto
    with True d show ?thesis by (simp add: bookmark_post_def length_remove1)
  next
    case False
    then show ?thesis by (simp add: bookmark_post_absent_twice)
  qed
  have reach: "session_bookmarks (fst (bookmark_post p (fst (bookmark_post p bs))))"
    using assms by (intro session_bookmarks.toggled)
  from add del twice len reach show ?thesis by blast
qed

theorem bookmark_post_toggle_witness:
  "set (fst (bookmark_post ''post_1'' (fst (bookmark_post ''post_1'' [''post_0'', ''post_1''])))) =
     set [''post_0'', ''post_1'']
   \<and> fst (bookmark_post ''post_1'' [''post_0'', ''post_1'']) = [''post_0'']
   \<and> fst (bookmark_post ''post_1'' [''post_0'']) = [''post_0'', ''post_1'']"
proof -
  have s0: "session_bookmarks (fst (bookmark_post ''post_0'' []))"
    by (intro session_bookmarks.intros)
  have s1: "session_bookmarks (fst (bookmark_post ''post_1'' (fst (bookmark_post ''post_0'' []))))"
    using s0 by (rule session_bookmarks.toggled)
  have e: "fst (bookmark_post ''post_1'' (fst (bookmark_post ''post_0'' []))) = [''post_0'', ''post_1'']"
    by (simp add: bookmark_post_def)
  have h: "session_bookmarks [''post_0'', ''post_1'']" using s1 e by simp
  show ?thesis
    using bookmark_post_toggle [OF h, of "''post_1''"] by (simp add: bookmark_post_def)
qed

section \<open>Properties of the sort\<close>

lemma insert_reverse_mset: "mset (insert_reverse k x xs) = add_mset x (mset xs)"
  by (induction xs) simp_all

lemma sort_reverse_mset: "mset (sort_reverse k xs) = mset xs"
  by (induction xs) (simp_all add: insert_reverse_mset)

lemma insert_reverse_set: "set (insert_reverse k x xs) = insert x (set xs)"
  by (induction xs) auto

lemma insert_reverse_sorted:
  "sorted_wrt (\<lambda>a b. k b \<le> k a) xs \<Longrightarrow> sorted_wrt (\<lambda>a b. k b \<le> k a) (insert_reverse k x xs)"
  by (induction xs) (auto simp: insert_reverse_set)

lemma sort_reverse_sorted: "sorted_wrt (\<lambda>a b. k b \<le> k a) (sort_reverse k xs)"
  by (induction xs) (simp_all add: insert_reverse_sorted)

text \<open>
  Stability: the elements with a given key come out in the order they went in. The
  insertion passes only elements of strictly greater key, so no order is needed on the
  list it inserts into.
\<close>

lemma insert_reverse_filter:
  "filter (\<lambda>p. k p = v) (insert_reverse k x xs) =
     (if k x = v then x # filter (\<lambda>p. k p = v) xs else filter (\<lambda>p. k p = v) xs)"
  by (induction xs) auto

lemma sort_reverse_stable:
  "filter (\<lambda>p. k p = v) (sort_reverse k xs) = filter (\<lambda>p. k p = v) xs"
  by (induction xs) (simp_all add: insert_reverse_filter)

text \<open>
  With a numeric key, and with timestamps that are all naive or all aware, the sort
  raises nothing: the sorted list is in descending order of the key, holds the same
  posts as before, and keeps the posts of equal key in the order they had.
\<close>

lemma sort_posts_comparable:
  assumes "(sort_by, k) \<in> set sort_criteria"
    and "sort_by = ''Recent'' \<longrightarrow> comparable_timestamps posts"
  shows "\<exists>sorted. sort_posts sort_by posts = Inr sorted
       \<and> sorted_wrt (\<lambda>a b. k b \<le> k a) sorted
       \<and> mset sorted = mset posts
       \<and> (\<forall>v. filter (\<lambda>p. k p = v) sorted = filter (\<lambda>p. k p = v) posts)"
proof -
  have "sort_posts sort_by posts = Inr (sort_reverse k posts)"
    using assms by (auto simp: sort_criteria_def sort_posts_def)
  then show ?thesis
    by (simp add: sort_reverse_sorted sort_reverse_mset sort_reverse_stable)
qed

lemma sort_posts_ties:
  "sort_posts ''Likes'' tie_posts = Inr (sort_reverse likes tie_posts)
   \<and> map post_id (sort_reverse likes tie_posts) = [''post_1'', ''post_0'', ''post_2'']"
  by (simp add: tie_posts_def sort_posts_def mock_post_def str_of_nat.simps digits_def)

lemma demo_posts_comparable: "comparable_timestamps (get_demo_data c tags w ptype limit)"
proof -
  have "\<forall>p \<in> set (get_demo_data c tags w ptype limit). \<not> timestamp_aware p"
    by (auto simp: get_demo_data_def mock_posts_def mock_post_def Let_def)
  then show ?thesis
    by (simp add: comparable_timestamps_def list_all_iff)
qed

lemma comparable_timestamps_aware:
  "comparable_timestamps posts =
     (list_all (\<lambda>b. b) (map timestamp_aware posts) \<or> list_all Not (map timestamp_aware posts))"
  by (simp add: comparable_timestamps_def list_all_iff)

text \<open>
  The sort by recency raises exactly when the list holds a post with a naive and a post
  with an aware timestamp.
\<close>

lemma sort_posts_recent_raises:
  "(sort_posts ''Recent'' posts = Inl (Exception ''TypeError'')) =
     (\<exists>p \<in> set posts. \<exists>q \<in> set posts. timestamp_aware p \<and> \<not> timestamp_aware q)"
  by (auto simp: sort_posts_def comparable_timestamps_def list_all_iff)

text \<open>
  Claim C9 fails on the code. The provider is configured and delivers two items, the first
  with a timestamp and the second without one. The retrieval raises nothing and shows no
  notice; the first post has an aware timestamp (read from the text of the item) and the
  second a naive one (\<^verbatim>\<open>datetime.now()\<close>). Sorting this list by recency raises
  \<^verbatim>\<open>TypeError\<close> instead of reordering the list.
\<close>

theorem sort_recent_mixed_timestamps_raises:
  "fst (scrape_instagram_posts True [] mixed_provider epoch_parser (frozen_clock (1000 * day))
          [''#design''] ''Week'' ''all'' 10) = []
   \<and> map timestamp_aware
        (snd (scrape_instagram_posts True [] mixed_provider epoch_parser
                (frozen_clock (1000 * day)) [''#design''] ''Week'' ''all'' 10)) = [True, False]
   \<and> sort_posts ''Recent''
        (snd (scrape_instagram_posts True [] mixed_provider epoch_parser
                (frozen_clock (1000 * day)) [''#design''] ''Week'' ''all'' 10)) =
       Inl (Exception ''TypeError'')"
proof -
  let ?r = "scrape_instagram_posts True [] mixed_provider epoch_parser
              (frozen_clock (1000 * day)) [''#design''] ''Week'' ''all'' 10"
  have n: "fst ?r = []"
    by (simp add: scrape_instagram_posts_def scrape_try_def Let_def mixed_provider_def
        build_post_def old_item_def undated_item_def empty_item_def epoch_parser_def get_or_def
        py_take_def)
  have a: "map timestamp_aware (snd ?r) = [True, False]"
    by (simp add: scrape_instagram_posts_def scrape_try_def Let_def mixed_provider_def
        build_post_def old_item_def undated_item_def empty_item_def epoch_parser_def get_or_def
        py_take_def)
  have "\<not> comparable_timestamps (snd ?r)"
    unfolding comparable_timestamps_aware a by simp
  then have s: "sort_posts ''Recent'' (snd ?r) = Inl (Exception ''TypeError'')"
    by (simp add: sort_posts_def)
  show ?thesis
    by (rule conjI [OF n conjI [OF a s]])
qed

section \<open>Properties of the post kind\<close>

text \<open>
  The claim C7 as stated, "a \<^verbatim>\<open>videoUrl\<close> field that is present makes the kind reel",
  fails on an item whose \<^verbatim>\<open>videoUrl\<close> is present and \<^verbatim>\<open>null\<close>: its kind is
  \<^verbatim>\<open>posts\<close>.
\<close>

theorem determine_post_type_present_counterexample:
  "videoUrl image_item \<noteq> None \<and> determine_post_type image_item = ''posts''"
  by (simp add: image_item_def empty_item_def determine_post_type_def get_truthy_def)

text \<open>
  Claim C7, amended. The kind follows the truth value of the two fields, not their
  presence: a field counts when it is present with a truthy value (an absent key,
  \<^verbatim>\<open>null\<close>, an empty string and an empty list do not count). If \<^verbatim>\<open>videoUrl\<close> counts
  the kind is \<^verbatim>\<open>reels\<close> whatever the other fields are; otherwise if
  \<^verbatim>\<open>sidecarMedias\<close> counts it is \<^verbatim>\<open>carousels\<close>; otherwise it is \<^verbatim>\<open>posts\<close>.
\<close>

theorem determine_post_type_precedence:
  "(get_truthy (videoUrl item) \<longrightarrow> determine_post_type item = ''reels'')
   \<and> (\<not> get_truthy (videoUrl item) \<and> get_truthy (sidecarMedias item)
        \<longrightarrow> determine_post_type item = ''carousels'')
   \<and> (\<not> get_truthy (videoUrl item) \<and> \<not> get_truthy (sidecarMedias item)
        \<longrightarrow> determine_post_type item = ''posts'')
   \<and> (get_truthy (videoUrl item) \<longleftrightarrow> (\<exists>v. videoUrl item = Some v \<and> truthy v))
   \<and> (get_truthy (sidecarMedias item) \<longleftrightarrow> (\<exists>v. sidecarMedias item = Some v \<and> truthy v))"
  by (auto simp: determine_post_type_def get_truthy_def split: option.splits)

theorem determine_post_type_precedence_witness:
  "get_truthy (videoUrl reel_item) \<and> get_truthy (sidecarMedias reel_item)
   \<and> determine_post_type reel_item = ''reels''"
proof -
  have h: "get_truthy (videoUrl reel_item) \<and> get_truthy (sidecarMedias reel_item)"
    by (simp add: reel_item_def empty_item_def get_truthy_def)
  show ?thesis using h determine_post_type_precedence [of reel_item] by blast
qed

section \<open>Properties of the content analysis\<close>

text \<open>
  Claim C5. Whenever the call of the AI provider raises, or the call returns and parsing
  its text raises, the result is the same value as the result without an AI credential,
  and that value is the default of the specification; the failed path has made one call
  of the provider and the path without a credential none.
\<close>

theorem analyze_with_gemini_defaults:
  assumes "generate_content (analysis_prompt cap tags) = Inl e
         \<or> (\<exists>t. generate_content (analysis_prompt cap tags) = Inr t \<and> json_loads t = Inl e)"
  shows "snd (snd (analyze_with_gemini True generate_content json_loads cap tags)) =
           snd (snd (analyze_with_gemini False generate_content json_loads cap tags))
       \<and> snd (snd (analyze_with_gemini False generate_content json_loads cap tags)) =
           default_analysis
       \<and> fst (analyze_with_gemini True generate_content json_loads cap tags) = 1
       \<and> fst (analyze_with_gemini False generate_content json_loads cap tags) = 0"
  using assms by (auto simp: analyze_with_gemini_def default_analysis_def)

theorem analyze_with_gemini_defaults_witness:
  "analyze_with_gemini True quota_exceeded no_json ''Hello #ui'' [''#ui''] =
     (1, [StWarning ''AI analysis failed: 429 quota exceeded''], default_analysis)
   \<and> snd (snd (analyze_with_gemini False quota_exceeded no_json ''Hello #ui'' [''#ui''])) =
     default_analysis"
proof -
  have h: "quota_exceeded (analysis_prompt ''Hello #ui'' [''#ui'']) =
             Inl (Exception ''429 quota exceeded'')
         \<or> (\<exists>t. quota_exceeded (analysis_prompt ''Hello #ui'' [''#ui'']) = Inr t
               \<and> no_json t = Inl (Exception ''429 quota exceeded''))"
    by (simp add: quota_exceeded_def)
  have n: "fst (snd (analyze_with_gemini True quota_exceeded no_json ''Hello #ui'' [''#ui''])) =
             [StWarning ''AI analysis failed: 429 quota exceeded'']"
    by (simp add: analyze_with_gemini_def quota_exceeded_def)
  show ?thesis
    using h n analyze_with_gemini_defaults
        [where generate_content = quota_exceeded and json_loads = no_json
           and cap = "''Hello #ui''" and tags = "[''#ui'']"
           and e = "Exception ''429 quota exceeded''"]
    by (metis prod.collapse)
qed

section \<open>Properties of the hashtag extraction\<close>

lemma findall_hashtags_tokens:
  "\<forall>t \<in> set (findall_hashtags w h s). \<exists>r. t = h # r \<and> r \<noteq> [] \<and> list_all w r"
proof (induction w h s rule: findall_hashtags.induct)
  case (1 w h)
  then show ?case by simp
next
  case (2 w h c cs)
  have "list_all w (takeWhile w cs)"
    by (simp add: list_all_iff) (meson set_takeWhileD)
  with 2 show ?case by auto
qed

text \<open>
  The matches lie in the text one after the other: the text is a gap, the first match, a
  gap, the second match, and so on, and a rest.
\<close>

lemma findall_hashtags_order:
  "\<exists>gaps rest. length gaps = length (findall_hashtags w h s)
     \<and> s = concat (map2 (@) gaps (findall_hashtags w h s)) @ rest"
proof (induction w h s rule: findall_hashtags.induct)
  case (1 w h)
  then show ?case by simp
next
  case (2 w h c cs)
  show ?case
  proof (cases "c = h \<and> takeWhile w cs \<noteq> []")
    case True
    with 2 obtain gaps rest where
      g: "length gaps = length (findall_hashtags w h (dropWhile w cs))"
         "dropWhile w cs =
            concat (map2 (@) gaps (findall_hashtags w h (dropWhile w cs))) @ rest"
      by blast
    let ?t = "c # takeWhile w cs"
    have eq: "findall_hashtags w h (c # cs) = ?t # findall_hashtags w h (dropWhile w cs)"
      using True by simp
    have "c # cs = ?t @ dropWhile w cs" by simp
    also have "\<dots> = concat (map2 (@) ([] # gaps) (findall_hashtags w h (c # cs))) @ rest"
      using g(2) by (simp only: eq) simp
    finally have "c # cs = concat (map2 (@) ([] # gaps) (findall_hashtags w h (c # cs))) @ rest" .
    moreover have "length ([] # gaps) = length (findall_hashtags w h (c # cs))"
      using g(1) eq by simp
    ultimately show ?thesis by blast
  next
    case False
    with 2 obtain gaps rest where
      g: "length gaps = length (findall_hashtags w h cs)"
         "cs = concat (map2 (@) gaps (findall_hashtags w h cs)) @ rest"
      by blast
    have eq: "findall_hashtags w h (c # cs) = findall_hashtags w h cs" using False by auto
    show ?thesis
    proof (cases gaps)
      case Nil
      with g have "findall_hashtags w h cs = []" by simp
      then have "length ([]::'a list list) = length (findall_hashtags w h (c # cs))
          \<and> c # cs = concat (map2 (@) [] (findall_hashtags w h (c # cs))) @ (c # cs)"
        using eq by simp
      then show ?thesis by blast
    next
      case (Cons g0 gs)
      then obtain t ts where ts: "findall_hashtags w h cs = t # ts"
        using g(1) by (cases "findall_hashtags w h cs") auto
      have "c # cs = concat (map2 (@) ((c # g0) # gs) (findall_hashtags w h (c # cs))) @ rest"
        using g(2) Cons ts eq by simp
      moreover have "length ((c # g0) # gs) = length (findall_hashtags w h (c # cs))"
        using g(1) Cons eq by simp
      ultimately show ?thesis by blast
    qed
  qed
qed

lemma take_in_order:
  assumes "length gaps = length ts" "s = concat (map2 (@) gaps ts) @ rest"
  shows "\<exists>gaps' rest'. length gaps' = length (take n ts)
           \<and> s = concat (map2 (@) gaps' (take n ts)) @ rest'"
proof -
  have "map2 (@) gaps ts = map2 (@) (take n gaps) (take n ts) @ map2 (@) (drop n gaps) (drop n ts)"
    by (metis append_take_drop_id drop_map drop_zip take_map take_zip)
  then have "s = concat (map2 (@) (take n gaps) (take n ts))
               @ (concat (map2 (@) (drop n gaps) (drop n ts)) @ rest)"
    using assms(2) by simp
  moreover have "length (take n gaps) = length (take n ts)" using assms(1) by simp
  ultimately show ?thesis by blast
qed

text \<open>
  The scan finds every hashtag of the text: its result is the list of the hashtags at
  all positions where the sign stands before a word character, each with the longest run
  of word characters, provided that the sign is not a word character itself (a match
  then holds no second sign, and the scan skips no position where a match starts).
\<close>

lemma hashtag_starts_Cons:
  "hashtag_starts w h (c # cs) =
     (if c = h \<and> cs \<noteq> [] \<and> w (hd cs) then [0] else []) @ map Suc (hashtag_starts w h cs)"
proof -
  have u: "[0..<length (c # cs)] = 0 # map Suc [0..<length cs]"
    by (simp add: upt_conv_Cons map_Suc_upt del: upt_Suc)
  have z: "(cs \<noteq> [] \<and> w (cs ! 0)) = (cs \<noteq> [] \<and> w (hd cs))"
    by (cases cs) simp_all
  show ?thesis
    unfolding hashtag_starts_def u using z
    by (simp add: filter_map comp_def)
qed

lemma hashtags_of_Cons:
  "hashtags_of w h (c # cs) =
     (if c = h \<and> cs \<noteq> [] \<and> w (hd cs) then [h # takeWhile w cs] else []) @ hashtags_of w h cs"
  by (simp add: hashtags_of_def hashtag_starts_Cons comp_def)

lemma hashtags_of_dropWhile:
  "\<not> w h \<Longrightarrow> hashtags_of w h (dropWhile w cs) = hashtags_of w h cs"
proof (induction cs)
  case Nil
  then show ?case by simp
next
  case (Cons c cs)
  show ?case
  proof (cases "w c")
    case True
    with Cons.prems have "c \<noteq> h" by auto
    with True Cons show ?thesis by (simp add: hashtags_of_Cons)
  next
    case False
    then show ?thesis by simp
  qed
qed

lemma takeWhile_non_empty: "(takeWhile w cs \<noteq> []) = (cs \<noteq> [] \<and> w (hd cs))"
  by (cases cs) simp_all

lemma findall_hashtags_all:
  "\<not> w h \<Longrightarrow> findall_hashtags w h s = hashtags_of w h s"
proof (induction w h s rule: findall_hashtags.induct)
  case (1 w h)
  then show ?case by (simp add: hashtags_of_def hashtag_starts_def)
next
  case (2 w h c cs)
  show ?case
  proof (cases "c = h \<and> takeWhile w cs \<noteq> []")
    case True
    then have "findall_hashtags w h (c # cs) =
        (h # takeWhile w cs) # findall_hashtags w h (dropWhile w cs)"
      by simp
    also have "\<dots> = (h # takeWhile w cs) # hashtags_of w h (dropWhile w cs)"
      using 2 True by simp
    also have "\<dots> = (h # takeWhile w cs) # hashtags_of w h cs"
      using "2.prems" by (simp add: hashtags_of_dropWhile)
    also have "\<dots> = hashtags_of w h (c # cs)"
      using True by (simp add: hashtags_of_Cons takeWhile_non_empty)
    finally show ?thesis .
  next
    case False
    then have "findall_hashtags w h (c # cs) = findall_hashtags w h cs" by auto
    also have "\<dots> = hashtags_of w h cs" using 2 False by simp
    also have "\<dots> = hashtags_of w h (c # cs)"
      using False by (auto simp: hashtags_of_Cons takeWhile_non_empty)
    finally show ?thesis .
  qed
qed

lemma hash_not_word: "\<not> is_word_char (CHR ''#'')"
  by (simp add: is_word_char_def ascii_lowercase_def ascii_uppercase_def digits_def
      latin1_alnum_def)

text \<open>
  The letter \<^verbatim>\<open>e\<close> with an acute is a word character, the multiplication sign is
  not.
\<close>

lemma word_chars_latin1: "is_word_char (CHR 0xE9) \<and> \<not> is_word_char (CHR 0xD7)"
  by (simp add: is_word_char_def ascii_lowercase_def ascii_uppercase_def digits_def
      latin1_alnum_def)

text \<open>
  Claim C8. For every caption the extraction returns the first five hashtags of the
  caption, where the hashtags of the caption are, at every position where \<^verbatim>\<open>#\<close>
  stands before a word character, the \<^verbatim>\<open>#\<close> with the longest run of word characters
  behind it, in the order of the positions. So it returns at most five tokens; each token
  is \<^verbatim>\<open>#\<close> followed by one or more word characters; and the tokens lie in the caption in
  the order of the result, one after the other (the caption is a gap, the first token, a
  gap, the second token, and so on, and a rest).
\<close>

theorem extract_hashtags_spec:
  "extract_hashtags cap = take 5 (hashtags_of is_word_char (CHR ''#'') cap)
   \<and> length (extract_hashtags cap) \<le> 5
   \<and> (\<forall>t \<in> set (extract_hashtags cap). is_hashtag t)
   \<and> (\<exists>gaps rest. length gaps = length (extract_hashtags cap)
         \<and> cap = concat (map2 (@) gaps (extract_hashtags cap)) @ rest)"
proof -
  have e: "extract_hashtags cap = take 5 (hashtags_of is_word_char (CHR ''#'') cap)"
    using findall_hashtags_all [of is_word_char "CHR ''#''" cap] hash_not_word
    by (simp add: extract_hashtags_def)
  have a: "length (extract_hashtags cap) \<le> 5" by (simp add: extract_hashtags_def)
  have b: "\<forall>t \<in> set (extract_hashtags cap). is_hashtag t"
  proof
    fix t
    assume "t \<in> set (extract_hashtags cap)"
    then have "t \<in> set (findall_hashtags is_word_char (CHR ''#'') cap)"
      by (auto simp: extract_hashtags_def dest: in_set_takeD)
    with findall_hashtags_tokens [of is_word_char "CHR ''#''" cap]
    obtain r where "t = CHR ''#'' # r" "r \<noteq> []" "list_all is_word_char r" by blast
    then show "is_hashtag t" by (simp add: is_hashtag_def)
  qed
  obtain gaps rest where "length gaps = length (findall_hashtags is_word_char (CHR ''#'') cap)"
      "cap = concat (map2 (@) gaps (findall_hashtags is_word_char (CHR ''#'') cap)) @ rest"
    using findall_hashtags_order [of is_word_char "CHR ''#''" cap] by blast
  then have c: "\<exists>gaps rest. length gaps = length (extract_hashtags cap)
         \<and> cap = concat (map2 (@) gaps (extract_hashtags cap)) @ rest"
    unfolding extract_hashtags_def by (rule take_in_order)
  show ?thesis
    by (rule conjI [OF e conjI [OF a conjI [OF b c]]])
qed

theorem extract_hashtags_spec_witness:
  "extract_hashtags cafe_caption = [''#caf'' @ [CHR 0xE9], ''#a'', ''#b'', ''#c'', ''#_x'']
   \<and> take 5 (hashtags_of is_word_char (CHR ''#'') cafe_caption) =
       [''#caf'' @ [CHR 0xE9], ''#a'', ''#b'', ''#c'', ''#_x'']
   \<and> list_all is_hashtag (extract_hashtags cafe_caption)"
proof -
  have e: "extract_hashtags cafe_caption = [''#caf'' @ [CHR 0xE9], ''#a'', ''#b'', ''#c'', ''#_x'']"
    by (simp add: extract_hashtags_def cafe_caption_def is_word_char_def ascii_lowercase_def
        ascii_uppercase_def digits_def latin1_alnum_def)
  have t: "take 5 (hashtags_of is_word_char (CHR ''#'') cafe_caption) =
       [''#caf'' @ [CHR 0xE9], ''#a'', ''#b'', ''#c'', ''#_x'']"
    using extract_hashtags_spec [of cafe_caption] e by simp
  have l: "list_all is_hashtag (extract_hashtags cafe_caption)"
    using extract_hashtags_spec [of cafe_caption]
    unfolding list_all_iff by blast
  show ?thesis
    by (rule conjI [OF e conjI [OF t l]])
qed

section \<open>Properties of the demo data\<close>

lemma length_mock_posts: "length (mock_posts c tags ptype limit) = nat limit"
  by (simp add: mock_posts_def)

lemma likes_mock_posts:
  "map likes (mock_posts c tags ptype limit) = map (\<lambda>i. 1500 + 100 * int i) [0..<nat limit]"
  by (simp add: mock_posts_def mock_post_def)

lemma post_type_mock_posts:
  "map post_type (mock_posts c tags ''all'' limit) =
     map (\<lambda>i. [''posts'', ''carousels'', ''reels''] ! (i mod 3)) [0..<nat limit]"
  by (simp add: mock_posts_def mock_post_def)

lemma timestamp_mock_posts:
  "map timestamp (mock_posts c tags ptype limit) =
     map (\<lambda>i. c i - int (i mod 30) * day) [0..<nat limit]"
  by (simp add: mock_posts_def mock_post_def)

lemma get_demo_data_filter:
  "get_demo_data c tags w ptype limit =
     filter (\<lambda>p. c (nat limit) - days_back_demo w * day \<le> timestamp p)
       (mock_posts c tags ptype limit)"
  by (simp add: get_demo_data_def Let_def)

lemma timestamp_get_demo_data:
  "map timestamp (get_demo_data c tags w ptype limit) =
     filter (\<lambda>t. c (nat limit) - days_back_demo w * day \<le> t)
       (map (\<lambda>i. c i - int (i mod 30) * day) [0..<nat limit])"
proof -
  have "map timestamp (get_demo_data c tags w ptype limit) =
          filter (\<lambda>t. c (nat limit) - days_back_demo w * day \<le> t)
            (map timestamp (mock_posts c tags ptype limit))"
    by (simp add: get_demo_data_filter filter_map comp_def)
  then show ?thesis by (simp only: timestamp_mock_posts)
qed

lemma days_back_demo_Week: "days_back_demo ''Week'' = 7"
  by (simp add: days_back_demo_def time_filters_demo_def get_or_def)

lemma upt_10: "[0..<10] = [0, 1, 2, 3, 4, 5, 6, 7, 8, 9::nat]"
  by (simp add: upt_rec)

lemma nat_10: "nat 10 = 10"
  by simp

text \<open>Without a resolved Apify token the provider is not configured.\<close>

lemma no_token_not_available:
  "get_secret api_keys ''apify_token'' = [] \<Longrightarrow>
   scraping_available_init api_keys client_error = ([], False)"
  by (simp add: scraping_available_init_def)

text \<open>The scenario of claim C3, one part at a time.\<close>

lemma week_unconfigured:
  "scrape_instagram_posts False proxy_url apify fromisoformat c tags ''Week'' ''all'' 10 =
     ([StWarning ''Apify not configured. Using demo data.''],
      get_demo_data c tags ''Week'' ''all'' 10)"
  by (simp add: scrape_instagram_posts_def)

lemma week_length: "length (mock_posts c tags ''all'' 10) = 10"
  by (simp add: length_mock_posts)

lemma week_likes:
  "map likes (mock_posts c tags ''all'' 10) = map (\<lambda>i. 1500 + 100 * int i) [0..<10]"
  by (simp only: likes_mock_posts nat_10)

lemma week_kinds:
  "map post_type (mock_posts c tags ''all'' 10) =
     map (\<lambda>i. [''posts'', ''carousels'', ''reels''] ! (i mod 3)) [0..<10]"
  by (simp only: post_type_mock_posts nat_10)

lemma week_timestamps:
  "map timestamp (mock_posts c tags ''all'' 10) = map (\<lambda>i. c i - int (i mod 30) * day) [0..<10]"
  by (simp only: timestamp_mock_posts nat_10)

lemma week_cutoff:
  "get_demo_data c tags ''Week'' ''all'' 10 =
     filter (\<lambda>p. c 10 - 7 * day \<le> timestamp p) (mock_posts c tags ''all'' 10)"
  by (simp only: get_demo_data_filter days_back_demo_Week nat_10)

lemma week_count: "length (get_demo_data c tags ''Week'' ''all'' 10) \<le> 10"
proof -
  have "length (get_demo_data c tags ''Week'' ''all'' 10) \<le> length (mock_posts c tags ''all'' 10)"
    unfolding week_cutoff by (rule length_filter_le)
  then show ?thesis by (simp only: week_length)
qed

text \<open>
  With a clock that is set two days forward after the first reading, the second record is
  younger than the first.
\<close>

lemma jump_clock_week:
  "map timestamp (get_demo_data jump_clock tags ''Week'' ''all'' 10) =
     [0, day, 0, - day, - 2 * day, - 3 * day, - 4 * day, - 5 * day]"
  by (simp add: timestamp_get_demo_data days_back_demo_Week upt_10 jump_clock_def day_def)

lemma jump_clock_week_unsorted:
  "\<not> sorted_wrt (\<lambda>a b. timestamp b \<le> timestamp a)
       (get_demo_data jump_clock tags ''Week'' ''all'' 10)"
proof -
  have "\<not> sorted_wrt (\<lambda>a b. b \<le> a)
            (map timestamp (get_demo_data jump_clock tags ''Week'' ''all'' 10))"
    unfolding jump_clock_week by (simp add: day_def)
  then show ?thesis unfolding sorted_wrt_map .
qed

lemma week_order_not_guaranteed:
  "\<exists>c'. \<not> sorted_wrt (\<lambda>a b. timestamp b \<le> timestamp a)
           (get_demo_data c' tags ''Week'' ''all'' 10)"
  by (rule exI [where x = jump_clock]) (rule jump_clock_week_unsorted)

text \<open>
  Whatever the clock does, the demo data are not in order of recency once the index wraps
  around: with 31 records of the last month, record 30 is as young as record 0 and comes
  after record 29, the oldest.
\<close>

lemma frozen_clock_month_unsorted:
  "\<not> sorted_wrt (\<lambda>a b. timestamp b \<le> timestamp a)
       (get_demo_data (frozen_clock t) tags ''Month'' ''all'' 31)"
proof -
  have d: "days_back_demo ''Month'' = 30"
    by (simp add: days_back_demo_def time_filters_demo_def get_or_def)
  have "filter (\<lambda>u. frozen_clock t (nat 31) - 30 * day \<le> u)
          (map (\<lambda>i. frozen_clock t i - int (i mod 30) * day) [0..<nat 31]) =
        map (\<lambda>i. frozen_clock t i - int (i mod 30) * day) [0..<nat 31]"
    by (rule filter_True) (auto simp: frozen_clock_def day_def)
  then have m: "map timestamp (get_demo_data (frozen_clock t) tags ''Month'' ''all'' 31) =
          map (\<lambda>i. t - int (i mod 30) * day) [0..<31]"
    by (simp add: timestamp_get_demo_data d frozen_clock_def)
  have "[0..<31] = [0..<29] @ [29, 30::nat]" by (simp add: upt_rec)
  with m have "map timestamp (get_demo_data (frozen_clock t) tags ''Month'' ''all'' 31) =
          map (\<lambda>i. t - int (i mod 30) * day) [0..<29] @ [t - 29 * day, t]"
    by simp
  then have "\<not> sorted_wrt (\<lambda>a b. b \<le> a)
       (map timestamp (get_demo_data (frozen_clock t) tags ''Month'' ''all'' 31))"
    by (simp add: sorted_wrt_append day_def)
  then show ?thesis unfolding sorted_wrt_map .
qed

text \<open>
  Claim C3. Without a configured provider, the retrieval for the window \<^verbatim>\<open>Week\<close>, all
  kinds and a limit of 10 shows the warning and returns the demo data. Before the window
  filter there are exactly 10 records; record \<open>i\<close> has \<open>1500 + 100 * i\<close> likes, the kind
  number \<open>i mod 3\<close> of \<^verbatim>\<open>posts\<close>, \<^verbatim>\<open>carousels\<close>, \<^verbatim>\<open>reels\<close> (the program's names of the
  kinds post, carousel and reel), and as timestamp the reading of the clock taken for it
  minus \<open>i mod 30\<close> days. The result keeps the records not older than seven days before
  the reading taken after them, so it has at most 10 records; and no order by recency is
  guaranteed: there is a clock under which the result is not ordered from young to old.
\<close>

theorem demo_data_week_10:
  "scrape_instagram_posts False proxy_url apify fromisoformat c tags ''Week'' ''all'' 10 =
     ([StWarning ''Apify not configured. Using demo data.''],
      get_demo_data c tags ''Week'' ''all'' 10)
   \<and> length (mock_posts c tags ''all'' 10) = 10
   \<and> map likes (mock_posts c tags ''all'' 10) = map (\<lambda>i. 1500 + 100 * int i) [0..<10]
   \<and> map post_type (mock_posts c tags ''all'' 10) =
       map (\<lambda>i. [''posts'', ''carousels'', ''reels''] ! (i mod 3)) [0..<10]
   \<and> map timestamp (mock_posts c tags ''all'' 10) = map (\<lambda>i. c i - int (i mod 30) * day) [0..<10]
   \<and> get_demo_data c tags ''Week'' ''all'' 10 =
       filter (\<lambda>p. c 10 - 7 * day \<le> timestamp p) (mock_posts c tags ''all'' 10)
   \<and> length (get_demo_data c tags ''Week'' ''all'' 10) \<le> 10
   \<and> (\<exists>c'. \<not> sorted_wrt (\<lambda>a b. timestamp b \<le> timestamp a)
               (get_demo_data c' tags ''Week'' ''all'' 10))"
  by (rule conjI [OF week_unconfigured conjI [OF week_length conjI [OF week_likes
        conjI [OF week_kinds conjI [OF week_timestamps conjI [OF week_cutoff
        conjI [OF week_count week_order_not_guaranteed]]]]]]])

section \<open>Properties of the time window\<close>

lemma days_back_same: "days_back_live w = days_back_demo w"
  by (simp add: days_back_live_def days_back_demo_def time_filters_live_def time_filters_demo_def)

lemma days_back_table:
  "map days_back_demo [''Today'', ''48 Hours'', ''4 Days'', ''Week'', ''Month''] = [1, 2, 4, 7, 30]"
  by (simp add: days_back_demo_def time_filters_demo_def get_or_def)

lemma days_back_default:
  "w \<notin> set [''Today'', ''48 Hours'', ''4 Days'', ''Week'', ''Month''] \<Longrightarrow> days_back_demo w = 30"
  by (simp add: days_back_demo_def time_filters_demo_def get_or_def)

lemma dateFrom_cutoff:
  "dateFrom (make_actor_input proxy_url c tags w limit) = now c - days_back_live w * day"
  by (simp add: make_actor_input_def Let_def)

text \<open>Every item that the provider delivers becomes a post, whatever its timestamp is.\<close>

lemma build_posts_length:
  "build_posts fromisoformat c items = (c1, Inr ps) \<Longrightarrow> length ps = length items"
proof (induction items arbitrary: c c1 ps)
  case Nil
  then show ?case by simp
next
  case (Cons x items)
  show ?case
  proof (cases x)
    case (Inl e)
    with Cons.prems show ?thesis by simp
  next
    case (Inr item)
    obtain c2 r where b: "build_post fromisoformat c item = (c2, r)"
      by (cases "build_post fromisoformat c item")
    obtain c3 rs where bs: "build_posts fromisoformat c2 items = (c3, rs)"
      by (cases "build_posts fromisoformat c2 items")
    from Cons.prems Inr b bs obtain p qs where "r = Inr p" "rs = Inr qs" "ps = p # qs"
      by (cases r; cases rs) auto
    with Cons.IH [of c2 c3 qs] bs show ?thesis by simp
  qed
qed

text \<open>
  The posts are the delivered items, one by one and in their order: the post at a
  position is the one built from the item at that position.
\<close>

lemma build_posts_items:
  "build_posts fromisoformat c items = (c1, Inr ps) \<Longrightarrow>
     list_all2 (\<lambda>x p. \<exists>item c2 c3. x = Inr item \<and> build_post fromisoformat c2 item = (c3, Inr p))
       items ps"
proof (induction items arbitrary: c c1 ps)
  case Nil
  then show ?case by simp
next
  case (Cons x items)
  show ?case
  proof (cases x)
    case (Inl e)
    with Cons.prems show ?thesis by simp
  next
    case (Inr item)
    obtain c2 r where b: "build_post fromisoformat c item = (c2, r)"
      by (cases "build_post fromisoformat c item")
    obtain c3 rs where bs: "build_posts fromisoformat c2 items = (c3, rs)"
      by (cases "build_posts fromisoformat c2 items")
    from Cons.prems Inr b bs obtain p qs where r: "r = Inr p" "rs = Inr qs" "ps = p # qs"
      by (cases r; cases rs) auto
    have "\<exists>item c2 c3. x = Inr item \<and> build_post fromisoformat c2 item = (c3, Inr p)"
      using Inr b r(1) by blast
    moreover have "list_all2
        (\<lambda>x p. \<exists>item c2 c3. x = Inr item \<and> build_post fromisoformat c2 item = (c3, Inr p)) items qs"
      using Cons.IH [of c2 c3 qs] bs r(2) by simp
    ultimately show ?thesis using r(3) by simp
  qed
qed

text \<open>The timestamp of a post is read from its item alone; the cutoff has no part in it.\<close>

lemma build_post_timestamp:
  assumes "build_post fromisoformat c item = (c1, Inr p)"
  shows "(timestamp p, timestamp_aware p) =
           (if get_or (item_timestamp item) [] \<noteq> []
            then projr (fromisoformat (replace_Z (get_or (item_timestamp item) [])))
            else (now c, False))"
  using assms by (auto simp: build_post_def split: if_splits sum.splits prod.splits)

lemma scrape_live_keeps_all:
  assumes "build_posts fromisoformat (tick c) (apify (make_actor_input proxy_url c tags w limit)) =
             (c1, Inr ps)"
  shows "scrape_instagram_posts True proxy_url apify fromisoformat c tags w ptype limit =
           ([], py_take limit
                  (if ptype \<noteq> ''all'' then filter (\<lambda>p. lower (post_type p) = ptype) ps else ps))"
  using assms by (simp add: scrape_instagram_posts_def scrape_try_def Let_def)

lemma scrape_live_raises:
  assumes "build_posts fromisoformat (tick c) (apify (make_actor_input proxy_url c tags w limit)) =
             (c1, Inl e)"
  shows "scrape_instagram_posts True proxy_url apify fromisoformat c tags w ptype limit =
           ([StError (''Scraping failed: '' @ str_exn e)], get_demo_data c1 tags w ptype limit)"
  using assms by (simp add: scrape_instagram_posts_def scrape_try_def Let_def)

lemma stale_scrape:
  "map timestamp (snd (scrape_instagram_posts True [] stale_provider epoch_parser
       (frozen_clock (1000 * day)) [''#design''] ''Week'' ''all'' 10)) = [0]"
  by (simp add: scrape_instagram_posts_def scrape_try_def Let_def stale_provider_def
      build_post_def old_item_def empty_item_def epoch_parser_def get_or_def py_take_def)

text \<open>
  The claim C2 as stated, "the live path retains a record if and only if its timestamp is
  not before the cutoff", fails: with a configured provider that delivers an item of the
  year 2020, the retrieval for the window \<^verbatim>\<open>Week\<close> returns that item, although its
  timestamp (the instant 0) is before the cutoff, seven days before the reading of the
  clock.
\<close>

theorem live_path_no_cutoff_counterexample:
  "map timestamp (snd (scrape_instagram_posts True [] stale_provider epoch_parser
       (frozen_clock (1000 * day)) [''#design''] ''Week'' ''all'' 10)) = [0]
   \<and> \<not> (now (frozen_clock (1000 * day)) - days_back_live ''Week'' * day \<le> 0)"
proof -
  have "\<not> (now (frozen_clock (1000 * day)) - days_back_live ''Week'' * day \<le> 0)"
    by (simp add: now_def frozen_clock_def days_back_live_def time_filters_live_def
        get_or_def day_def)
  with stale_scrape show ?thesis ..
qed

text \<open>
  Claim C2, amended. Both paths compute the cutoff by the same rule, a reading of the
  clock minus \<open>days\<close> of the window, where \<open>days\<close> is 1, 2, 4, 7 and 30 for
  \<^verbatim>\<open>Today\<close>, \<^verbatim>\<open>48 Hours\<close>, \<^verbatim>\<open>4 Days\<close>, \<^verbatim>\<open>Week\<close> and \<^verbatim>\<open>Month\<close> and 30 for any
  other window. The demo path retains a record if and only if its timestamp is not
  before the cutoff. The live path sends the cutoff to the provider as \<^verbatim>\<open>dateFrom\<close>
  and applies no cutoff itself, for every window, kind filter and limit: when the scrape
  raises nothing, every delivered item becomes a post, one by one and in order, whatever
  its timestamp is, and the result is these posts, filtered by the kind when a kind
  other than \<^verbatim>\<open>all\<close> is asked for, and cut to the limit; when the scrape raises, the
  result is the demo data, with an error notice.
\<close>

theorem cutoff_both_paths:
  "days_back_live w = days_back_demo w
   \<and> map days_back_demo [''Today'', ''48 Hours'', ''4 Days'', ''Week'', ''Month''] = [1, 2, 4, 7, 30]
   \<and> (w \<notin> set [''Today'', ''48 Hours'', ''4 Days'', ''Week'', ''Month''] \<longrightarrow> days_back_demo w = 30)
   \<and> get_demo_data c tags w ptype limit =
       filter (\<lambda>p. c (nat limit) - days_back_demo w * day \<le> timestamp p)
         (mock_posts c tags ptype limit)
   \<and> dateFrom (make_actor_input proxy_url c tags w limit) = now c - days_back_live w * day
   \<and> (build_posts fromisoformat (tick c) (apify (make_actor_input proxy_url c tags w limit)) =
         (c1, Inr ps)
       \<longrightarrow> length ps = length (apify (make_actor_input proxy_url c tags w limit))
           \<and> list_all2
               (\<lambda>x p. \<exists>item c2 c3. x = Inr item \<and> build_post fromisoformat c2 item = (c3, Inr p))
               (apify (make_actor_input proxy_url c tags w limit)) ps
           \<and> scrape_instagram_posts True proxy_url apify fromisoformat c tags w ptype limit =
               ([], py_take limit
                      (if ptype \<noteq> ''all'' then filter (\<lambda>p. lower (post_type p) = ptype) ps
                       else ps)))
   \<and> (build_posts fromisoformat (tick c) (apify (make_actor_input proxy_url c tags w limit)) =
         (c1, Inl e)
       \<longrightarrow> scrape_instagram_posts True proxy_url apify fromisoformat c tags w ptype limit =
             ([StError (''Scraping failed: '' @ str_exn e)],
              get_demo_data c1 tags w ptype limit))"
proof -
  let ?items = "apify (make_actor_input proxy_url c tags w limit)"
  have live: "build_posts fromisoformat (tick c) ?items = (c1, Inr ps)
       \<longrightarrow> length ps = length ?items
           \<and> list_all2
               (\<lambda>x p. \<exists>item c2 c3. x = Inr item \<and> build_post fromisoformat c2 item = (c3, Inr p))
               ?items ps
           \<and> scrape_instagram_posts True proxy_url apify fromisoformat c tags w ptype limit =
               ([], py_take limit
                      (if ptype \<noteq> ''all'' then filter (\<lambda>p. lower (post_type p) = ptype) ps
                       else ps))"
  proof
    assume b: "build_posts fromisoformat (tick c) ?items = (c1, Inr ps)"
    show "length ps = length ?items
           \<and> list_all2
               (\<lambda>x p. \<exists>item c2 c3. x = Inr item \<and> build_post fromisoformat c2 item = (c3, Inr p))
               ?items ps
           \<and> scrape_instagram_posts True proxy_url apify fromisoformat c tags w ptype limit =
               ([], py_take limit
                      (if ptype \<noteq> ''all'' then filter (\<lambda>p. lower (post_type p) = ptype) ps
                       else ps))"
      using build_posts_length [OF b] build_posts_items [OF b]
        scrape_live_keeps_all [where apify = apify and proxy_url = proxy_url and c = c
          and tags = tags and w = w and limit = limit and fromisoformat = fromisoformat
          and ?c1.0 = c1 and ps = ps and ptype = ptype] b
      by blast
  qed
  have fails: "build_posts fromisoformat (tick c) ?items = (c1, Inl e)
       \<longrightarrow> scrape_instagram_posts True proxy_url apify fromisoformat c tags w ptype limit =
             ([StError (''Scraping failed: '' @ str_exn e)],
              get_demo_data c1 tags w ptype limit)"
    using scrape_live_raises [where apify = apify and proxy_url = proxy_url and c = c
          and tags = tags and w = w and limit = limit and fromisoformat = fromisoformat
          and ?c1.0 = c1 and e = e and ptype = ptype]
    by blast
  have dflt: "w \<notin> set [''Today'', ''48 Hours'', ''4 Days'', ''Week'', ''Month'']
      \<longrightarrow> days_back_demo w = 30"
    using days_back_default by blast
  show ?thesis
    by (rule conjI [OF days_back_same conjI [OF days_back_table conjI [OF dflt
          conjI [OF get_demo_data_filter conjI [OF dateFrom_cutoff conjI [OF live fails]]]]]])
qed

text \<open>
  For the window \<^verbatim>\<open>Week\<close> and the kind filter \<^verbatim>\<open>posts\<close>, the item of the year 2020
  is returned; and when the run of the actor raises, the demo data are.
\<close>

theorem cutoff_both_paths_witness:
  "''Year'' \<notin> set [''Today'', ''48 Hours'', ''4 Days'', ''Week'', ''Month'']
   \<and> days_back_demo ''Year'' = 30
   \<and> days_back_live ''Year'' = 30
   \<and> (\<exists>p. scrape_instagram_posts True [] stale_provider epoch_parser (frozen_clock (1000 * day))
             [''#design''] ''Week'' ''posts'' 10 = ([], [p])
          \<and> post_id p = ''17'' \<and> timestamp p = 0 \<and> post_type p = ''posts'')
   \<and> scrape_instagram_posts True [] failing_provider epoch_parser (frozen_clock 0)
         [''#design''] ''Week'' ''reels'' 3 =
       ([StError ''Scraping failed: Actor run failed''],
        get_demo_data (tick (frozen_clock 0)) [''#design''] ''Week'' ''reels'' 3)"
proof -
  have h: "''Year'' \<notin> set [''Today'', ''48 Hours'', ''4 Days'', ''Week'', ''Month'']"
    by simp
  have y: "days_back_demo ''Year'' = 30 \<and> days_back_live ''Year'' = 30"
    using h cutoff_both_paths [of "''Year''"] by simp
  obtain p where b: "build_posts epoch_parser (tick (frozen_clock (1000 * day)))
      (stale_provider (make_actor_input [] (frozen_clock (1000 * day)) [''#design''] ''Week'' 10)) =
        (tick (frozen_clock (1000 * day)), Inr [p])"
    and p: "post_id p = ''17''" "timestamp p = 0" "post_type p = ''posts''"
    by (simp add: stale_provider_def build_post_def old_item_def empty_item_def
        epoch_parser_def get_or_def determine_post_type_def get_truthy_def)
  have "scrape_instagram_posts True [] stale_provider epoch_parser (frozen_clock (1000 * day))
           [''#design''] ''Week'' ''posts'' 10 =
         ([], py_take 10 (if ''posts'' \<noteq> ''all''
                          then filter (\<lambda>p. lower (post_type p) = ''posts'') [p] else [p]))"
    using b cutoff_both_paths [where w = "''Week''" and c = "frozen_clock (1000 * day)"
        and tags = "[''#design'']" and limit = 10 and proxy_url = "[]"
        and fromisoformat = epoch_parser and apify = stale_provider
        and ?c1.0 = "tick (frozen_clock (1000 * day))" and ps = "[p]" and ptype = "''posts''"]
    by blast
  then have l: "scrape_instagram_posts True [] stale_provider epoch_parser
      (frozen_clock (1000 * day)) [''#design''] ''Week'' ''posts'' 10 = ([], [p])"
    using p(3) by (simp add: py_take_def lower_def lower_char_def ascii_uppercase_def
        ascii_lowercase_def)
  have f: "build_posts epoch_parser (tick (frozen_clock 0))
      (failing_provider (make_actor_input [] (frozen_clock 0) [''#design''] ''Week'' 3)) =
        (tick (frozen_clock 0), Inl (Exception ''Actor run failed''))"
    by (simp add: failing_provider_def)
  have r: "scrape_instagram_posts True [] failing_provider epoch_parser (frozen_clock 0)
         [''#design''] ''Week'' ''reels'' 3 =
       ([StError (''Scraping failed: '' @ str_exn (Exception ''Actor run failed''))],
        get_demo_data (tick (frozen_clock 0)) [''#design''] ''Week'' ''reels'' 3)"
    using f cutoff_both_paths [where w = "''Week''" and c = "frozen_clock 0"
        and tags = "[''#design'']" and limit = 3 and proxy_url = "[]"
        and fromisoformat = epoch_parser and apify = failing_provider
        and ?c1.0 = "tick (frozen_clock 0)" and e = "Exception ''Actor run failed''"
        and ptype = "''reels''"]
    by blast
  have ex: "\<exists>p. scrape_instagram_posts True [] stale_provider epoch_parser
             (frozen_clock (1000 * day)) [''#design''] ''Week'' ''posts'' 10 = ([], [p])
          \<and> post_id p = ''17'' \<and> timestamp p = 0 \<and> post_type p = ''posts''"
    using l p by blast
  have r': "scrape_instagram_posts True [] failing_provider epoch_parser (frozen_clock 0)
         [''#design''] ''Week'' ''reels'' 3 =
       ([StError ''Scraping failed: Actor run failed''],
        get_demo_data (tick (frozen_clock 0)) [''#design''] ''Week'' ''reels'' 3)"
    using r by simp
  show ?thesis
    by (rule conjI [OF h conjI [OF conjunct1 [OF y] conjI [OF conjunct2 [OF y] conjI [OF ex r']]]])
qed

section \<open>Properties of a failed scrape\<close>

lemma failing_try:
  "scrape_try [] failing_provider epoch_parser (frozen_clock 0) [''#design''] ''Week'' ''all'' 3 =
     (tick (frozen_clock 0), Inl (Exception ''Actor run failed''))"
  by (simp add: scrape_try_def failing_provider_def)

text \<open>A run of the actor that raises is an exception of the \<^verbatim>\<open>try\<close>.\<close>

lemma remote_call_raises:
  assumes "apify (make_actor_input proxy_url c tags w limit) = Inl e # rest"
  shows "scrape_try proxy_url apify fromisoformat c tags w ptype limit = (tick c, Inl e)"
  using assms by (simp add: scrape_try_def)

text \<open>
  The claim C4 as stated, "the exception is surfaced only as a warning", fails: when the
  run of the actor raises, the one notice that the retrieval shows is an error notice
  (\<^verbatim>\<open>st.error\<close>), not a warning.
\<close>

theorem scrape_failure_not_warning_counterexample:
  "fst (scrape_instagram_posts True [] failing_provider epoch_parser (frozen_clock 0)
          [''#design''] ''Week'' ''all'' 3) = [StError ''Scraping failed: Actor run failed'']
   \<and> \<not> list_all is_warning
         (fst (scrape_instagram_posts True [] failing_provider epoch_parser (frozen_clock 0)
                 [''#design''] ''Week'' ''all'' 3))"
  by (simp add: scrape_instagram_posts_def failing_try)

text \<open>
  Claim C4, amended. Whenever the provider is configured and the \<^verbatim>\<open>try\<close> raises an
  exception (the run of the actor, the iteration over its results or the reading of an
  item raises), the retrieval does not raise: it shows one error notice (\<^verbatim>\<open>st.error\<close>)
  with the text of the exception, and returns the demo data for the same hashtags, time
  window, kind and limit, built with the readings of the clock that follow the failed
  attempt.
\<close>

theorem scrape_failure_falls_back:
  assumes "snd (scrape_try proxy_url apify fromisoformat c tags w ptype limit) = Inl e"
  shows "scrape_instagram_posts True proxy_url apify fromisoformat c tags w ptype limit =
           ([StError (''Scraping failed: '' @ str_exn e)],
            get_demo_data (fst (scrape_try proxy_url apify fromisoformat c tags w ptype limit))
              tags w ptype limit)"
  using assms
  by (cases "scrape_try proxy_url apify fromisoformat c tags w ptype limit")
     (simp add: scrape_instagram_posts_def)

theorem scrape_failure_falls_back_witness:
  "scrape_instagram_posts True [] failing_provider epoch_parser (frozen_clock 0)
      [''#design''] ''Week'' ''all'' 3 =
     ([StError ''Scraping failed: Actor run failed''],
      get_demo_data (tick (frozen_clock 0)) [''#design''] ''Week'' ''all'' 3)"
proof -
  have h: "snd (scrape_try [] failing_provider epoch_parser (frozen_clock 0) [''#design'']
                  ''Week'' ''all'' 3) = Inl (Exception ''Actor run failed'')"
    by (simp add: failing_try)
  show ?thesis
    using scrape_failure_falls_back [OF h] by (simp add: failing_try)
qed

section \<open>Properties of saving the keys\<close>

lemma write_file_ok:
  assumes "fst (write_file parent path content f) = None"
  shows "fs_files (snd (write_file parent path content f)) path = Some content
       \<and> fs_dirs (snd (write_file parent path content f)) = fs_dirs f"
  using assms by (auto simp: write_file_def split: if_splits)

lemma write_file_partial:
  assumes "path \<notin> set (fs_dirs f)" "room f path < length content"
  shows "write_file None path content f =
           (Some (Exception ''OSError''),
            f\<lparr>fs_files := (fs_files f)(path \<mapsto> take (room f path) content), fs_free := 0\<rparr>)"
  using assms by (simp add: write_file_def)

lemma save_toml_ok:
  "fst (save_secrets_to_file yaml_dump d ''toml'' f) = None \<longrightarrow>
   ''.streamlit'' \<in> set (fs_dirs (snd (save_secrets_to_file yaml_dump d ''toml'' f)))
   \<and> fs_files (snd (save_secrets_to_file yaml_dump d ''toml'' f)) ''.streamlit/secrets.toml'' =
       Some (toml_content d)"
proof
  assume ok: "fst (save_secrets_to_file yaml_dump d ''toml'' f) = None"
  obtain r f1 where m: "mkdir_exist_ok ''.streamlit'' f = (r, f1)"
    by (cases "mkdir_exist_ok ''.streamlit'' f")
  with ok have r: "r = None"
    by (cases r) (simp_all add: save_secrets_to_file_def)
  have d1: "''.streamlit'' \<in> set (fs_dirs f1)"
    using m r by (auto simp: mkdir_exist_ok_def split: if_splits)
  have s: "save_secrets_to_file yaml_dump d ''toml'' f =
        write_file (Some ''.streamlit'') ''.streamlit/secrets.toml'' (toml_content d) f1"
    using m r by (simp add: save_secrets_to_file_def)
  show "''.streamlit'' \<in> set (fs_dirs (snd (save_secrets_to_file yaml_dump d ''toml'' f)))
     \<and> fs_files (snd (save_secrets_to_file yaml_dump d ''toml'' f)) ''.streamlit/secrets.toml'' =
         Some (toml_content d)"
    using ok d1
      write_file_ok [of "Some ''.streamlit''" "''.streamlit/secrets.toml''" "toml_content d" f1]
    unfolding s by simp
qed

lemma save_env_ok:
  "fst (save_secrets_to_file yaml_dump d ''env'' f) = None \<longrightarrow>
   fs_files (snd (save_secrets_to_file yaml_dump d ''env'' f)) ''.env'' = Some (env_content d)"
  using write_file_ok [of None "''.env''" "env_content d" f]
  by (simp add: save_secrets_to_file_def)

lemma save_yaml_ok:
  "fst (save_secrets_to_file yaml_dump d ''yaml'' f) = None \<longrightarrow>
   fs_files (snd (save_secrets_to_file yaml_dump d ''yaml'' f)) ''config.yaml'' =
     Some (yaml_dump \<lparr>cfg_api_keys = Some d, cfg_app_settings = Some default_app_settings\<rparr>)"
  using write_file_ok [of None "''config.yaml''"
      "yaml_dump \<lparr>cfg_api_keys = Some d, cfg_app_settings = Some default_app_settings\<rparr>" f]
  by (simp add: save_secrets_to_file_def)

lemma save_toml_mkdir_raises:
  "fs_files f ''.streamlit'' \<noteq> None \<longrightarrow>
   save_secrets_to_file yaml_dump d ''toml'' f = (Some (Exception ''FileExistsError''), f)"
  by (simp add: save_secrets_to_file_def mkdir_exist_ok_def)

lemma save_toml_partial:
  "fs_files f ''.streamlit'' = None \<and> ''.streamlit/secrets.toml'' \<notin> set (fs_dirs f)
   \<and> room f ''.streamlit/secrets.toml'' < length (toml_content d) \<longrightarrow>
   fst (save_secrets_to_file yaml_dump d ''toml'' f) = Some (Exception ''OSError'')
   \<and> fs_files (snd (save_secrets_to_file yaml_dump d ''toml'' f)) ''.streamlit/secrets.toml'' =
       Some (take (room f ''.streamlit/secrets.toml'') (toml_content d))"
  by (auto simp: save_secrets_to_file_def mkdir_exist_ok_def write_file_def room_def)

lemma save_env_partial:
  "''.env'' \<notin> set (fs_dirs f) \<and> room f ''.env'' < length (env_content d) \<longrightarrow>
   save_secrets_to_file yaml_dump d ''env'' f =
     (Some (Exception ''OSError''),
      f\<lparr>fs_files := (fs_files f)(''.env'' \<mapsto> take (room f ''.env'') (env_content d)),
        fs_free := 0\<rparr>)"
  using write_file_partial [of "''.env''" f "env_content d"]
  by (simp add: save_secrets_to_file_def)

lemma save_yaml_partial:
  "''config.yaml'' \<notin> set (fs_dirs f)
   \<and> room f ''config.yaml'' <
       length (yaml_dump \<lparr>cfg_api_keys = Some d, cfg_app_settings = Some default_app_settings\<rparr>)
   \<longrightarrow>
   save_secrets_to_file yaml_dump d ''yaml'' f =
     (Some (Exception ''OSError''),
      f\<lparr>fs_files := (fs_files f)(''config.yaml'' \<mapsto> take (room f ''config.yaml'')
           (yaml_dump \<lparr>cfg_api_keys = Some d, cfg_app_settings = Some default_app_settings\<rparr>)),
        fs_free := 0\<rparr>)"
  using write_file_partial [of "''config.yaml''" f
      "yaml_dump \<lparr>cfg_api_keys = Some d, cfg_app_settings = Some default_app_settings\<rparr>"]
  by (simp add: save_secrets_to_file_def)

lemma env_content_wizard:
  "env_content wizard_keys =
     ''APIFY_TOKEN=abc123'' @ newline @ ''GEMINI_API_KEY=g-42'' @ newline"
  by (simp add: wizard_keys_def upper_def upper_char_def ascii_lowercase_def ascii_uppercase_def)

text \<open>
  The claim C6 as stated, "the save does not raise on a partial write", fails: on a device
  with room for five characters, saving the keys in the environment format writes the
  first five characters of the content and raises \<^verbatim>\<open>OSError\<close>.
\<close>

theorem save_partial_write_counterexample:
  "fst (save_secrets_to_file block_dump wizard_keys ''env'' (empty_disk 5)) =
     Some (Exception ''OSError'')
   \<and> fs_files (snd (save_secrets_to_file block_dump wizard_keys ''env'' (empty_disk 5))) ''.env'' =
       Some ''APIFY''"
  by (simp add: save_secrets_to_file_def write_file_def room_def empty_disk_def get_or_def
      env_content_wizard newline_def)

text \<open>
  Claim C6, amended. For every credential map and file system:
  \<^item> a save in the key-value format that raises nothing leaves the directory
    \<^verbatim>\<open>.streamlit\<close> in place (it is created when missing) and the file
    \<^verbatim>\<open>.streamlit/secrets.toml\<close> with one line for each non-empty value; the other two
    formats write into the working directory, \<^verbatim>\<open>.env\<close> with one line for each
    non-empty value and \<^verbatim>\<open>config.yaml\<close> with the rendering of the given keys together
    with the default block \<^verbatim>\<open>app_settings\<close>;
  \<^item> the save has no error handling: when \<^verbatim>\<open>.streamlit\<close> exists as a file the
    key-value save raises \<^verbatim>\<open>FileExistsError\<close>, and when the device cannot take the
    whole content the save, in each format, raises \<^verbatim>\<open>OSError\<close> and leaves the part of
    the content that fits.
\<close>

theorem save_secrets_to_file_effects:
  "(fst (save_secrets_to_file yaml_dump d ''toml'' f) = None \<longrightarrow>
      ''.streamlit'' \<in> set (fs_dirs (snd (save_secrets_to_file yaml_dump d ''toml'' f)))
      \<and> fs_files (snd (save_secrets_to_file yaml_dump d ''toml'' f)) ''.streamlit/secrets.toml'' =
          Some (toml_content d))
   \<and> (fst (save_secrets_to_file yaml_dump d ''env'' f) = None \<longrightarrow>
        fs_files (snd (save_secrets_to_file yaml_dump d ''env'' f)) ''.env'' =
          Some (env_content d))
   \<and> (fst (save_secrets_to_file yaml_dump d ''yaml'' f) = None \<longrightarrow>
        fs_files (snd (save_secrets_to_file yaml_dump d ''yaml'' f)) ''config.yaml'' =
          Some (yaml_dump \<lparr>cfg_api_keys = Some d,
                            cfg_app_settings = Some default_app_settings\<rparr>))
   \<and> (fs_files f ''.streamlit'' \<noteq> None \<longrightarrow>
        save_secrets_to_file yaml_dump d ''toml'' f = (Some (Exception ''FileExistsError''), f))
   \<and> (fs_files f ''.streamlit'' = None \<and> ''.streamlit/secrets.toml'' \<notin> set (fs_dirs f)
        \<and> room f ''.streamlit/secrets.toml'' < length (toml_content d) \<longrightarrow>
        fst (save_secrets_to_file yaml_dump d ''toml'' f) = Some (Exception ''OSError'')
        \<and> fs_files (snd (save_secrets_to_file yaml_dump d ''toml'' f))
              ''.streamlit/secrets.toml'' =
            Some (take (room f ''.streamlit/secrets.toml'') (toml_content d)))
   \<and> (''.env'' \<notin> set (fs_dirs f) \<and> room f ''.env'' < length (env_content d) \<longrightarrow>
        save_secrets_to_file yaml_dump d ''env'' f =
          (Some (Exception ''OSError''),
           f\<lparr>fs_files := (fs_files f)(''.env'' \<mapsto> take (room f ''.env'') (env_content d)),
             fs_free := 0\<rparr>))
   \<and> (''config.yaml'' \<notin> set (fs_dirs f)
        \<and> room f ''config.yaml'' <
            length (yaml_dump \<lparr>cfg_api_keys = Some d,
                                cfg_app_settings = Some default_app_settings\<rparr>) \<longrightarrow>
        save_secrets_to_file yaml_dump d ''yaml'' f =
          (Some (Exception ''OSError''),
           f\<lparr>fs_files := (fs_files f)(''config.yaml'' \<mapsto> take (room f ''config.yaml'')
                (yaml_dump \<lparr>cfg_api_keys = Some d,
                             cfg_app_settings = Some default_app_settings\<rparr>)),
             fs_free := 0\<rparr>))"
  by (rule conjI [OF save_toml_ok conjI [OF save_env_ok conjI [OF save_yaml_ok
        conjI [OF save_toml_mkdir_raises conjI [OF save_toml_partial
        conjI [OF save_env_partial save_yaml_partial]]]]]])

lemma save_yaml_wizard_ok:
  "fst (save_secrets_to_file block_dump wizard_keys ''yaml'' (empty_disk 1000)) = None"
  by (simp add: save_secrets_to_file_def write_file_def room_def empty_disk_def get_or_def
      block_dump_def wizard_keys_def default_app_settings_def newline_def str_of_nat.simps
      digits_def)

lemma save_toml_wizard_ok:
  "fst (save_secrets_to_file block_dump wizard_keys ''toml'' (empty_disk 1000)) = None"
  by (simp add: save_secrets_to_file_def mkdir_exist_ok_def write_file_def room_def
      empty_disk_def get_or_def wizard_keys_def newline_def dquote_def upper_def)

lemma save_env_wizard_small:
  "''.env'' \<notin> set (fs_dirs (empty_disk 5))
   \<and> room (empty_disk 5) ''.env'' < length (env_content wizard_keys)"
  by (simp add: room_def empty_disk_def get_or_def env_content_wizard newline_def)

theorem save_secrets_to_file_effects_witness:
  "fst (save_secrets_to_file block_dump wizard_keys ''yaml'' (empty_disk 1000)) = None
   \<and> fs_files (snd (save_secrets_to_file block_dump wizard_keys ''yaml'' (empty_disk 1000)))
        ''config.yaml'' =
       Some (block_dump \<lparr>cfg_api_keys = Some wizard_keys,
                          cfg_app_settings = Some default_app_settings\<rparr>)
   \<and> fst (save_secrets_to_file block_dump wizard_keys ''toml'' (empty_disk 1000)) = None
   \<and> ''.streamlit'' \<in>
       set (fs_dirs (snd (save_secrets_to_file block_dump wizard_keys ''toml'' (empty_disk 1000))))
   \<and> fst (save_secrets_to_file block_dump wizard_keys ''env'' (empty_disk 5)) =
       Some (Exception ''OSError'')"
proof -
  have big: "fs_files (snd (save_secrets_to_file block_dump wizard_keys ''yaml'' (empty_disk 1000)))
        ''config.yaml'' =
       Some (block_dump \<lparr>cfg_api_keys = Some wizard_keys,
                          cfg_app_settings = Some default_app_settings\<rparr>)
     \<and> ''.streamlit'' \<in>
       set (fs_dirs (snd (save_secrets_to_file block_dump wizard_keys ''toml'' (empty_disk 1000))))"
    using save_yaml_wizard_ok save_toml_wizard_ok
      save_secrets_to_file_effects [of block_dump wizard_keys "empty_disk 1000"]
    by blast
  have small: "fst (save_secrets_to_file block_dump wizard_keys ''env'' (empty_disk 5)) =
       Some (Exception ''OSError'')"
    using save_env_wizard_small
      save_secrets_to_file_effects [of block_dump wizard_keys "empty_disk 5"]
    by simp
  from big small save_yaml_wizard_ok save_toml_wizard_ok show ?thesis by blast
qed

section \<open>Properties of the secrets resolution\<close>

lemma lower_logical: "lower ''apify_token'' = ''apify_token''"
  by (simp add: lower_def lower_char_def ascii_uppercase_def ascii_lowercase_def)

text \<open>
  What a call of \<^verbatim>\<open>load_secrets\<close> resolves for a logical key: the first non-empty value
  in the order hosted store, environment, secrets file, configuration file, where the
  value that the key had before the call stands in for the hosted store when the hosted
  store cannot be read.
\<close>

lemma fill_items_lookup:
  "distinct (map fst items) \<Longrightarrow>
   fill_items items api k =
     (if \<not> has_value api k \<and> (\<exists>v. map_of items k = Some v \<and> v \<noteq> [])
      then map_of items k else api k)"
proof (induction items arbitrary: api)
  case Nil
  then show ?case by simp
next
  case (Cons a items)
  obtain key v where a: "a = (key, v)" by (cases a)
  from Cons.prems a have d: "distinct (map fst items)" and nk: "key \<notin> fst ` set items" by auto
  have nm: "map_of items key = None" using nk by (simp add: map_of_eq_None_iff)
  show ?case
    unfolding a fill_items.simps Cons.IH [OF d]
    using nm by (auto simp: has_value_def)
qed

lemma dict_get_fill_items:
  assumes "distinct (map fst items)"
  shows "dict_get (fill_items items api) k [] =
           (if dict_get api k [] \<noteq> [] then dict_get api k [] else dict_get (map_of items) k [])"
  unfolding fill_items_lookup [OF assms]
  by (auto simp: has_value_def dict_get_def split: option.splits)

lemma fill_names_other:
  "k \<notin> lower ` set names \<Longrightarrow> fill_names names data api k = api k"
  by (induction names arbitrary: api) (auto split: option.splits)

lemma fill_names_lookup:
  "distinct (map lower names) \<Longrightarrow> K \<in> set names \<Longrightarrow>
   fill_names names data api (lower K) =
     (if \<not> has_value api (lower K) \<and> data K \<noteq> None then data K else api (lower K))"
proof (induction names arbitrary: api)
  case Nil
  then show ?case by simp
next
  case (Cons H names)
  show ?case
  proof (cases "K = H")
    case True
    have "lower K \<notin> lower ` set names" using Cons.prems(1) True by auto
    then show ?thesis
      using True by (auto simp: fill_names_other split: option.splits)
  next
    case False
    with Cons.prems have K: "K \<in> set names" and d: "distinct (map lower names)"
      and ne: "lower H \<noteq> lower K" by auto
    show ?thesis
      using ne by (auto simp: Cons.IH [OF d K] has_value_def split: option.splits)
  qed
qed

lemma logical_key_facts:
  "k \<in> set logical_keys \<Longrightarrow> upper k \<in> set secret_names \<and> lower (upper k) = k \<and> lower k = k"
  by (auto simp: logical_keys_def secret_names_def upper_def upper_char_def lower_def
      lower_char_def ascii_lowercase_def ascii_uppercase_def)

lemma distinct_lower_secret_names: "distinct (map lower secret_names)"
  by (simp add: secret_names_def lower_def lower_char_def ascii_lowercase_def ascii_uppercase_def)

lemma dict_get_load_secrets_file:
  assumes "k \<in> set logical_keys"
  shows "dict_get (load_secrets_file file api) k [] =
           (if dict_get api k [] \<noteq> [] then dict_get api k []
            else case file of None \<Rightarrow> [] | Some d \<Rightarrow> dict_get d (upper k) [])"
proof (cases "file")
  case None
  then show ?thesis by (simp add: load_secrets_file_def)
next
  case (Some d)
  from logical_key_facts [OF assms]
  have K: "upper k \<in> set secret_names" and l: "lower (upper k) = k" by simp_all
  have "fill_names secret_names d api k =
          (if \<not> has_value api k \<and> d (upper k) \<noteq> None then d (upper k) else api k)"
    using fill_names_lookup [OF distinct_lower_secret_names K, of d api] by (simp only: l)
  then show ?thesis
    using Some by (auto simp: load_secrets_file_def has_value_def dict_get_def split: option.splits)
qed

lemma dict_get_env_keys:
  "k \<in> set logical_keys \<Longrightarrow>
   dict_get (map_of (env_keys env)) k [] = dict_get env (upper k) []"
  by (auto simp: logical_keys_def env_keys_def dict_get_def upper_def upper_char_def
      ascii_lowercase_def ascii_uppercase_def)

lemma distinct_env_keys: "distinct (map fst (env_keys env))"
  by (simp add: env_keys_def)

lemma dict_get_load_streamlit_secrets:
  "k \<in> set logical_keys \<Longrightarrow>
   dict_get (load_streamlit_secrets store api) k [] =
     (case store of None \<Rightarrow> dict_get api k [] | Some s \<Rightarrow> dict_get s (upper k) [])"
  by (cases store)
     (auto simp: logical_keys_def load_streamlit_secrets_def dict_get_def upper_def upper_char_def
      ascii_lowercase_def ascii_uppercase_def)

lemma dict_get_load_config_file:
  assumes "config_keys_distinct src"
  shows "dict_get (load_config_file (config_file src) api) k [] =
           (if dict_get api k [] \<noteq> [] then dict_get api k []
            else case config_file src of None \<Rightarrow> []
                 | Some doc \<Rightarrow> dict_get (map_of (get_or (cfg_api_keys doc) [])) k [])"
proof (cases "config_file src")
  case None
  then show ?thesis by (simp add: load_config_file_def)
next
  case (Some doc)
  with assms have "distinct (map fst (get_or (cfg_api_keys doc) []))"
    by (simp add: config_keys_distinct_def)
  from dict_get_fill_items [OF this] show ?thesis
    using Some by (simp add: load_config_file_def)
qed

lemma load_secrets_resolution:
  assumes "config_keys_distinct src" "k \<in> set logical_keys"
  shows "get_secret (load_secrets src api) k =
           first_non_empty
             ((case st_secrets src of None \<Rightarrow> dict_get api k []
               | Some s \<Rightarrow> dict_get s (upper k) []) # tl (yielded src k))"
proof -
  have l: "lower k = k" using logical_key_facts [OF assms(2)] by simp
  show ?thesis
    unfolding get_secret_def l load_secrets_def
      dict_get_load_config_file [OF assms(1)]
      dict_get_load_secrets_file [OF assms(2)]
      dict_get_fill_items [OF distinct_env_keys]
      dict_get_env_keys [OF assms(2)]
      dict_get_load_streamlit_secrets [OF assms(2)]
    by (simp add: first_non_empty_def yielded_def split: option.splits)
qed

lemma fresh_resolution:
  assumes "config_keys_distinct src" "k \<in> set logical_keys"
  shows "get_secret (SecretsManager_init src) k = first_non_empty (yielded src k)"
  unfolding SecretsManager_init_def load_secrets_resolution [OF assms]
  by (simp add: yielded_def dict_get_def first_non_empty_def split: option.splits)

text \<open>
  The scenario of the specification on a new manager: when the hosted store yields
  nothing for the token and the environment defines it, the environment's value is
  resolved, whatever the configuration file holds.
\<close>

lemma env_beats_config_fresh:
  assumes "config_keys_distinct src"
    and "case st_secrets src of None \<Rightarrow> True | Some s \<Rightarrow> dict_get s ''APIFY_TOKEN'' [] = []"
    and "dict_get (environ src) ''APIFY_TOKEN'' [] = X" and "X \<noteq> []"
  shows "get_secret (SecretsManager_init src) ''apify_token'' = X"
proof -
  have k: "''apify_token'' \<in> set logical_keys" by (simp add: logical_keys_def)
  have u: "upper ''apify_token'' = ''APIFY_TOKEN''"
    by (simp add: upper_def upper_char_def ascii_lowercase_def ascii_uppercase_def)
  show ?thesis
    unfolding fresh_resolution [OF assms(1) k]
    using assms(2-4) by (simp add: yielded_def u first_non_empty_def split: option.splits)
qed

text \<open>
  Claim C1 holds for a manager as \<^verbatim>\<open>__init__\<close> builds it (lemma \<open>fresh_resolution\<close>),
  and on every later call while the hosted store can be read. It fails on a reload when
  the hosted store cannot be read: a value resolved by an earlier call outranks every
  source. On a machine without hosted secrets whose configuration file held the token
  \<^verbatim>\<open>OLD\<close>, after the wizard has saved the token \<^verbatim>\<open>NEW\<close> to the configuration file
  and called \<^verbatim>\<open>load_secrets\<close> again ("Reload secrets"), the manager still resolves
  \<^verbatim>\<open>OLD\<close>, while the first non-empty value that the sources yield, and the value that a
  new manager resolves, is \<^verbatim>\<open>NEW\<close>.
\<close>

theorem load_secrets_reload_stale:
  "get_secret (load_secrets new_config (SecretsManager_init old_config)) ''apify_token'' = ''OLD''
   \<and> first_non_empty (yielded new_config ''apify_token'') = ''NEW''
   \<and> get_secret (SecretsManager_init new_config) ''apify_token'' = ''NEW''"
  by (simp add: get_secret_def lower_logical SecretsManager_init_def load_secrets_def
      old_config_def new_config_def load_streamlit_secrets_def env_keys_def dict_get_def
      has_value_def load_secrets_file_def load_config_file_def get_or_def first_non_empty_def
      yielded_def)

end
